theory Spec2Isabelle
  imports Main "HOL-Library.Char_ord" "HOL-Library.List_Lexorder"
    "HOL-Library.Multiset"
begin

section \<open>Model of the audit orchestration and reporting pipeline\<close>

subsection \<open>Text lines (Python \<open>str.splitlines\<close>)\<close>

text \<open>
  A Python \<open>str\<close> is modelled as a \<open>string\<close>; a character is identified with its code
  point below 256. \<open>str.splitlines\<close> ends a line at LF, VT, FF, CR, FS, GS, RS and NEL,
  and treats CR LF as one terminator. With \<open>keepends=True\<close> the terminator stays on the
  line; the accumulator \<open>cur\<close> is the line read so far.
\<close>

definition is_linebreak :: "char \<Rightarrow> bool" where
  "is_linebreak c = (of_char c \<in> {10, 11, 12, 13, 28, 29, 30, 133 :: nat})"

fun splitlines_keep :: "string \<Rightarrow> string \<Rightarrow> string list" where
  "splitlines_keep cur [] = (if cur = [] then [] else [cur])"
| "splitlines_keep cur [c] = [cur @ [c]]"
| "splitlines_keep cur (c # d # ds) =
     (if of_char c = (13::nat) \<and> of_char d = (10::nat)
      then (cur @ [c, d]) # splitlines_keep [] ds
      else if is_linebreak c then (cur @ [c]) # splitlines_keep [] (d # ds)
      else splitlines_keep (cur @ [c]) (d # ds))"

definition splitlines_keepends :: "string \<Rightarrow> string list" where
  "splitlines_keepends s = splitlines_keep [] s"

subsection \<open>\<open>utils.chunk_data_by_tokens\<close>\<close>

text \<open>
  \<open>model.count_tokens(line).total_tokens\<close> is a call to the generative-AI client; it is a
  parameter \<open>count_tokens\<close> that yields \<open>None\<close> where the call raises, in which case the
  source falls back to \<open>len(line) // 4\<close>.
\<close>

definition line_token_count :: "(string \<Rightarrow> int option) \<Rightarrow> string \<Rightarrow> int" where
  "line_token_count count_tokens line =
     (case count_tokens line of Some n \<Rightarrow> n | None \<Rightarrow> int (length line) div 4)"

text \<open>
  The \<open>for line in lines\<close> loop, with the three loop variables \<open>chunks\<close>,
  \<open>current_chunk_lines\<close> and \<open>current_token_count\<close>; the empty list of lines is the
  code after the loop.
\<close>

fun chunk_loop ::
  "(string \<Rightarrow> int option) \<Rightarrow> int \<Rightarrow> string list \<Rightarrow> string list \<Rightarrow> string list \<Rightarrow> int \<Rightarrow> string list"
where
  "chunk_loop count_tokens max_tokens [] chunks current_chunk_lines current_token_count =
     (if current_chunk_lines \<noteq> [] then chunks @ [concat current_chunk_lines] else chunks)"
| "chunk_loop count_tokens max_tokens (line # lines) chunks current_chunk_lines current_token_count =
     (let line_tokens = line_token_count count_tokens line in
      if current_token_count + line_tokens > max_tokens
      then chunk_loop count_tokens max_tokens lines
             (if current_chunk_lines \<noteq> [] then chunks @ [concat current_chunk_lines] else chunks)
             [line] line_tokens
      else chunk_loop count_tokens max_tokens lines chunks
             (current_chunk_lines @ [line]) (current_token_count + line_tokens))"

definition chunk_data_by_tokens :: "string \<Rightarrow> (string \<Rightarrow> int option) \<Rightarrow> int \<Rightarrow> string list" where
  "chunk_data_by_tokens data_string count_tokens max_tokens_per_chunk =
     chunk_loop count_tokens max_tokens_per_chunk (splitlines_keepends data_string) [] [] 0"

subsection \<open>Python values, dictionaries and exceptions\<close>

text \<open>
  Values that cross the modelled interfaces (decoded JSON, result payloads) are JSON
  values. A float is carried by the text \<open>repr\<close> prints for it. A \<open>dict\<close> is an association
  list in insertion order; \<open>map_of\<close> is \<open>dict.get\<close>.
\<close>

datatype json =
    JNull
  | JBool bool
  | JInt int
  | JFloat string
  | JStr string
  | JArr "json list"
  | JObj "(string \<times> json) list"

definition is_dict :: "json \<Rightarrow> bool" where
  "is_dict v = (case v of JObj _ \<Rightarrow> True | _ \<Rightarrow> False)"

definition dict_get :: "json \<Rightarrow> string \<Rightarrow> json option" where
  "dict_get v k = (case v of JObj kvs \<Rightarrow> map_of kvs k | _ \<Rightarrow> None)"

definition get_or :: "json \<Rightarrow> string \<Rightarrow> json \<Rightarrow> json" where
  "get_or v k d = (case dict_get v k of Some x \<Rightarrow> x | None \<Rightarrow> d)"

text \<open>The substring test \<open>needle in hay\<close> on \<open>str\<close>.\<close>

fun starts_with :: "string \<Rightarrow> string \<Rightarrow> bool" where
  "starts_with [] hay = True"
| "starts_with (c # cs) [] = False"
| "starts_with (c # cs) (d # ds) = (c = d \<and> starts_with cs ds)"

fun str_contains :: "string \<Rightarrow> string \<Rightarrow> bool" where
  "str_contains needle [] = (needle = [])"
| "str_contains needle (c # cs) = (starts_with needle (c # cs) \<or> str_contains needle cs)"

text \<open>
  The exception classes the source names in an \<open>except\<close> clause, each with the text
  \<open>str(e)\<close> gives; a subclass counts as its base. \<open>OtherError\<close> is any other subclass of
  \<open>Exception\<close>, with its class name.
\<close>

datatype exn =
    ResourceExhausted string
  | ServiceUnavailable string
  | HTTPError string
  | ValueError string
  | KeyError string
  | OtherError string string

datatype 'a outcome = Returns 'a | Raises exn

subsection \<open>Python's \<open>str\<close> and \<open>repr\<close> on these values\<close>

fun dec_nat :: "nat \<Rightarrow> string" where
  "dec_nat n = (if n < 10 then [char_of (48 + n)] else dec_nat (n div 10) @ [char_of (48 + n mod 10)])"

definition dec_int :: "int \<Rightarrow> string" where
  "dec_int i = (if i < 0 then CHR ''-'' # dec_nat (nat (- i)) else dec_nat (nat i))"

definition hex_digit :: "nat \<Rightarrow> char" where
  "hex_digit d = (if d < 10 then char_of (48 + d) else char_of (87 + d))"

definition hex2 :: "nat \<Rightarrow> string" where
  "hex2 n = [hex_digit (n div 16 mod 16), hex_digit (n mod 16)]"

text \<open>
  \<open>repr\<close> of a \<open>str\<close>: double quotes when the text has a single quote and no double
  quote, single quotes otherwise; the quote and the backslash are escaped, tab, newline and
  carriage return are written \<open>\t\<close>, \<open>\n\<close>, \<open>\r\<close>, and the other unprintable characters
  as \<open>\xNN\<close>.
\<close>

definition repr_quote :: "string \<Rightarrow> char" where
  "repr_quote s = (if CHR 0x27 \<in> set s \<and> CHR 0x22 \<notin> set s then CHR 0x22 else CHR 0x27)"

definition repr_char :: "char \<Rightarrow> char \<Rightarrow> string" where
  "repr_char q c =
     (let n = (of_char c :: nat) in
      if c = q \<or> n = 92 then [CHR 0x5C, c]
      else if n = 9 then [CHR 0x5C, CHR ''t'']
      else if n = 10 then [CHR 0x5C, CHR ''n'']
      else if n = 13 then [CHR 0x5C, CHR ''r'']
      else if n < 32 \<or> n = 127 \<or> (128 \<le> n \<and> n \<le> 160) \<or> n = 173
        then [CHR 0x5C, CHR ''x''] @ hex2 n
      else [c])"

definition repr_str :: "string \<Rightarrow> string" where
  "repr_str s = (let q = repr_quote s in [q] @ concat (map (repr_char q) s) @ [q])"

fun join :: "string \<Rightarrow> string list \<Rightarrow> string" where
  "join sep [] = []"
| "join sep [x] = x"
| "join sep (x # y # ys) = x @ sep @ join sep (y # ys)"

fun py_repr :: "json \<Rightarrow> string" where
  "py_repr JNull = ''None''"
| "py_repr (JBool b) = (if b then ''True'' else ''False'')"
| "py_repr (JInt i) = dec_int i"
| "py_repr (JFloat t) = t"
| "py_repr (JStr s) = repr_str s"
| "py_repr (JArr xs) = ''['' @ join '', '' (map py_repr xs) @ '']''"
| "py_repr (JObj kvs) =
     ''{'' @ join '', '' (map (\<lambda>kv. repr_str (fst kv) @ '': '' @ py_repr (snd kv)) kvs) @ ''}''"

definition py_str :: "json \<Rightarrow> string" where
  "py_str v = (case v of JStr s \<Rightarrow> s | _ \<Rightarrow> py_repr v)"

subsection \<open>\<open>utils.retry_with_backoff\<close>\<close>

text \<open>
  The decorated function may answer differently each time it is called, so its outcome is
  given per call, numbered by the calls made before it, which is the loop counter \<open>x\<close>. Python's
  built-in \<open>str\<close> is the parameter \<open>str_of\<close>.

  \<open>payload_429\<close> is the condition under which the \<open>try\<close> body raises instead of
  returning, and \<open>try_body\<close> is the \<open>try\<close> body: what reaches the \<open>except\<close> clauses.
\<close>

definition payload_429 :: "(json \<Rightarrow> string) \<Rightarrow> json \<Rightarrow> bool" where
  "payload_429 str_of result =
     (is_dict result \<and> dict_get result ''error'' \<noteq> None \<and>
      str_contains ''429'' (str_of (get_or result ''error'' (JStr ''''))))"

definition try_body :: "(json \<Rightarrow> string) \<Rightarrow> json outcome \<Rightarrow> json outcome" where
  "try_body str_of called =
     (case called of
        Raises e \<Rightarrow> Raises e
      | Returns result \<Rightarrow>
          if payload_429 str_of result
          then Raises (HTTPError (''Status 429: '' @ str_of (get_or result ''details'' (JStr ''''))))
          else Returns result)"

text \<open>
  The \<open>except\<close> clauses, in order: the two Google API exceptions go on to the retry test,
  an \<open>HTTPError\<close> does so when \<open>"429" in str(e)\<close>, everything else is raised again at once.
\<close>

definition handler_retries :: "exn \<Rightarrow> bool" where
  "handler_retries e =
     (case e of
        ResourceExhausted _ \<Rightarrow> True
      | ServiceUnavailable _ \<Rightarrow> True
      | HTTPError msg \<Rightarrow> str_contains ''429'' msg
      | _ \<Rightarrow> False)"

text \<open>
  A run of the wrapper: what it returned or raised, how often it called the function, and
  the sleeps it took, each recorded as \<open>backoff_in_seconds * 2**x\<close> (the random jitter
  added to it is left out).
\<close>

record 'a wrapped_run =
  final :: "'a outcome"
  calls :: nat
  sleeps :: "int list"

text \<open>
  The \<open>while True\<close> loop. The decorated function is \<open>f\<close>; \<open>f x\<close> is \<open>None\<close> when call
  \<open>x\<close> never returns. The loop ends only where the source returns or raises: with a
  negative \<open>retries\<close> and a function that always fails with a retryable error it never
  does, and the value is \<open>None\<close>.
\<close>

partial_function (option) retry_loop ::
  "(json \<Rightarrow> string) \<Rightarrow> (nat \<Rightarrow> json outcome option) \<Rightarrow> int \<Rightarrow> int \<Rightarrow> nat \<Rightarrow> int list
     \<Rightarrow> json wrapped_run option"
where
  "retry_loop str_of f retries backoff x slept =
     (case f x of
        None \<Rightarrow> None
      | Some called \<Rightarrow>
         (case try_body str_of called of
            Returns result \<Rightarrow> Some \<lparr>final = Returns result, calls = Suc x, sleeps = slept\<rparr>
          | Raises e \<Rightarrow>
              if handler_retries e then
                if int x = retries then Some \<lparr>final = Raises e, calls = Suc x, sleeps = slept\<rparr>
                else retry_loop str_of f retries backoff (Suc x) (slept @ [backoff * 2 ^ x])
              else Some \<lparr>final = Raises e, calls = Suc x, sleeps = slept\<rparr>))"

declare retry_loop.simps [code]

definition retry_with_backoff ::
  "(json \<Rightarrow> string) \<Rightarrow> int \<Rightarrow> int \<Rightarrow> (nat \<Rightarrow> json outcome option) \<Rightarrow> json wrapped_run option" where
  "retry_with_backoff str_of retries backoff f = retry_loop str_of f retries backoff 0 []"

subsection \<open>Truthiness and the operations on decoded JSON that can raise\<close>

definition truthy_str :: "string option \<Rightarrow> bool" where
  "truthy_str s = (case s of None \<Rightarrow> False | Some t \<Rightarrow> t \<noteq> [])"

definition truthy_int :: "int option \<Rightarrow> bool" where
  "truthy_int n = (case n of None \<Rightarrow> False | Some i \<Rightarrow> i \<noteq> 0)"

fun truthy :: "json \<Rightarrow> bool" where
  "truthy JNull = False"
| "truthy (JBool b) = b"
| "truthy (JInt i) = (i \<noteq> 0)"
| "truthy (JFloat t) = (t \<noteq> ''0.0'' \<and> t \<noteq> ''-0.0'')"
| "truthy (JStr s) = (s \<noteq> [])"
| "truthy (JArr xs) = (xs \<noteq> [])"
| "truthy (JObj kvs) = (kvs \<noteq> [])"

fun type_name :: "json \<Rightarrow> string" where
  "type_name JNull = ''NoneType''"
| "type_name (JBool b) = ''bool''"
| "type_name (JInt i) = ''int''"
| "type_name (JFloat t) = ''float''"
| "type_name (JStr s) = ''str''"
| "type_name (JArr xs) = ''list''"
| "type_name (JObj kvs) = ''dict''"

text \<open>
  \<open>key in data\<close> for a \<open>str\<close> key: a key of a \<open>dict\<close>, an element of a \<open>list\<close>, a
  substring of a \<open>str\<close>; a \<open>TypeError\<close> on the other values.
\<close>

definition py_in :: "string \<Rightarrow> json \<Rightarrow> exn + bool" where
  "py_in key data =
     (case data of
        JObj kvs \<Rightarrow> Inr (map_of kvs key \<noteq> None)
      | JArr xs \<Rightarrow> Inr (JStr key \<in> set xs)
      | JStr s \<Rightarrow> Inr (str_contains key s)
      | _ \<Rightarrow> Inl (OtherError ''TypeError''
                 (''argument of type '' @ [CHR 0x27] @ type_name data @ [CHR 0x27] @ '' is not iterable'')))"

text \<open>\<open>data.get(key, default)\<close>: an \<open>AttributeError\<close> unless \<open>data\<close> is a \<open>dict\<close>.\<close>

definition py_get :: "json \<Rightarrow> string \<Rightarrow> json \<Rightarrow> exn + json" where
  "py_get data key dflt =
     (case data of
        JObj kvs \<Rightarrow> Inr (case map_of kvs key of Some v \<Rightarrow> v | None \<Rightarrow> dflt)
      | _ \<Rightarrow> Inl (OtherError ''AttributeError''
                 ([CHR 0x27] @ type_name data @ [CHR 0x27] @ '' object has no attribute ''
                  @ [CHR 0x27] @ ''get'' @ [CHR 0x27])))"

text \<open>\<open>token[:10]\<close>, which the source evaluates for a debug line: only \<open>str\<close> and \<open>list\<close> can be sliced.\<close>

definition sliceable :: "json \<Rightarrow> bool" where
  "sliceable v = (case v of JStr _ \<Rightarrow> True | JArr _ \<Rightarrow> True | _ \<Rightarrow> False)"

definition slice_error :: "json \<Rightarrow> exn" where
  "slice_error v = OtherError ''TypeError''
     (case v of JObj _ \<Rightarrow> ''unhashable type: '' @ [CHR 0x27] @ ''slice'' @ [CHR 0x27]
      | _ \<Rightarrow> [CHR 0x27] @ type_name v @ [CHR 0x27] @ '' object is not subscriptable'')"

subsection \<open>\<open>chronicle_api.make_api_request\<close>\<close>

text \<open>
  The settings the function reads from \<open>audit_details\<close> with \<open>.get\<close>; a field is \<open>None\<close>
  when the key is missing or holds \<open>None\<close>.
\<close>

record audit_details =
  name :: "string option"
  category :: "string option"
  auth_method :: "string option"
  audit_type_name :: "string option"
  audit_type :: "string option"
  audit_type_id :: "nat option"
  pagination_token_key :: "string option"
  pagination_results_key :: "string option"
  pagination_request_token_key :: "string option"
  default_page_size :: "int option"
  max_pages :: "int option"

record tenant_config =
  soar_api_key :: "string option"
  bindplane_api_key :: "string option"

text \<open>
  One HTTP exchange. The server is a function of the number of requests the call has
  issued before and of the query parameters of this request; the method, URL, headers and
  body are the same for every request of a call and are left to the server. \<open>Fails\<close> is a
  request that raises (a connection error, a timeout), with the text of the exception.
  \<open>reason\<close> and \<open>url\<close> are what \<open>raise_for_status\<close> writes into its message.
\<close>

record http_response =
  status_code :: nat
  content :: string
  reason :: string
  url :: string

datatype http_reply = Reply http_response | Fails string

type_synonym params = "(string \<times> json) list"
type_synonym server = "nat \<Rightarrow> params \<Rightarrow> http_reply"

definition dict_set :: "string \<Rightarrow> json \<Rightarrow> params \<Rightarrow> params" where
  "dict_set k v ps = (if map_of ps k = None then ps @ [(k, v)] else map (\<lambda>(k', v'). if k' = k then (k', v) else (k', v')) ps)"

text \<open>The locals of the function that the loop reads.\<close>

record fetch_locals =
  page_token_key :: "string option"
  results_key :: "string option"
  request_token_key :: "string option"
  page_size :: "int option"
  max_pages_arg :: "int option"

definition read_locals :: "audit_details \<Rightarrow> int option \<Rightarrow> fetch_locals" where
  "read_locals ad mp =
     \<lparr>page_token_key = pagination_token_key ad,
      results_key = pagination_results_key ad,
      request_token_key =
        (if truthy_str (pagination_request_token_key ad) then pagination_request_token_key ad
         else pagination_token_key ad),
      page_size = default_page_size ad,
      max_pages_arg = mp\<rparr>"

text \<open>How a call ends, and how many HTTP requests it has issued.\<close>

datatype fetch_exit =
    Returned json
  | HttpErrorRaised http_response
  | ExceptionRaised exn

record fetch_run =
  exit :: fetch_exit
  requests :: nat

text \<open>The code after the loop.\<close>

definition after_loop :: "fetch_locals \<Rightarrow> json list \<Rightarrow> json" where
  "after_loop L all_results =
     (if truthy_str (results_key L) then JObj [(the (results_key L), JArr all_results)]
      else if length all_results = 1 then hd all_results
      else JObj [(''results'', JArr all_results)])"

text \<open>
  The data aggregation block of the loop body: the page is returned as it is, an exception
  is raised, or the loop goes on with the new \<open>all_results\<close>.
\<close>

datatype aggregated = PageReturned json | AggregateRaised exn | Aggregated "json list"

definition aggregate :: "fetch_locals \<Rightarrow> json \<Rightarrow> json list \<Rightarrow> aggregated" where
  "aggregate L data all_results =
     (let no_key = (if \<not> truthy_str (page_token_key L) then PageReturned data else Aggregated all_results)
      in if truthy_str (results_key L) then
           (case py_in (the (results_key L)) data of
              Inl e \<Rightarrow> AggregateRaised e
            | Inr False \<Rightarrow> no_key
            | Inr True \<Rightarrow>
                (case py_get data (the (results_key L)) (JArr []) of
                   Inl e \<Rightarrow> AggregateRaised e
                 | Inr (JArr results_on_page) \<Rightarrow> Aggregated (all_results @ results_on_page)
                 | Inr _ \<Rightarrow> PageReturned data))
         else no_key)"

text \<open>The token handling block: stop, raise, or go on with the next page token.\<close>

datatype token_step = NoMorePages | TokenRaised exn | NextPage json

definition next_token :: "fetch_locals \<Rightarrow> json \<Rightarrow> token_step" where
  "next_token L data =
     (if truthy_str (page_token_key L) then
        (case py_get data (the (page_token_key L)) JNull of
           Inl e \<Rightarrow> TokenRaised e
         | Inr tok \<Rightarrow>
             if \<not> truthy tok then NoMorePages
             else if sliceable tok then NextPage tok
             else TokenRaised (slice_error tok))
      else NoMorePages)"

definition request_params :: "fetch_locals \<Rightarrow> json \<Rightarrow> params" where
  "request_params L next_page_token =
     (let params = (if truthy_int (page_size L) then [(''pageSize'', JInt (the (page_size L)))] else [])
      in if truthy next_page_token \<and> truthy_str (request_token_key L)
         then dict_set (the (request_token_key L)) next_page_token params
         else params)"

text \<open>
  The \<open>while True\<close> loop. \<open>page_count\<close>, \<open>next_page_token\<close> and \<open>all_results\<close> are the loop
  variables, \<open>loads\<close> is the JSON decoder behind \<open>response.json()\<close> (\<open>None\<close> where it
  raises \<open>JSONDecodeError\<close>). Without a page cap, a server that always sends a next-page
  token keeps the loop running; the value is then \<open>None\<close>.
\<close>

partial_function (option) page_loop ::
  "fetch_locals \<Rightarrow> (string \<Rightarrow> json option) \<Rightarrow> server \<Rightarrow> nat \<Rightarrow> json \<Rightarrow> json list \<Rightarrow> fetch_run option"
where
  "page_loop L loads srv page_count next_page_token all_results =
     (if truthy_int (max_pages_arg L) \<and> int (page_count + 1) > the (max_pages_arg L)
      then Some \<lparr>exit = Returned (after_loop L all_results), requests = page_count\<rparr>
      else
        (case srv page_count (request_params L next_page_token) of
           Fails msg \<Rightarrow>
             Some \<lparr>exit = ExceptionRaised (OtherError ''RequestException'' msg), requests = page_count + 1\<rparr>
         | Reply response \<Rightarrow>
             if 400 \<le> status_code response \<and> status_code response < 600
             then Some \<lparr>exit = HttpErrorRaised response, requests = page_count + 1\<rparr>
             else if status_code response = 204 \<or> content response = []
             then Some \<lparr>exit = Returned (after_loop L all_results), requests = page_count + 1\<rparr>
             else
               (case loads (content response) of
                  None \<Rightarrow>
                    if all_results = []
                    then Some \<lparr>exit = Returned (JObj [(''result'', JStr (content response))]),
                               requests = page_count + 1\<rparr>
                    else Some \<lparr>exit = Returned (after_loop L all_results), requests = page_count + 1\<rparr>
                | Some data \<Rightarrow>
                    (case aggregate L data all_results of
                       PageReturned page \<Rightarrow> Some \<lparr>exit = Returned page, requests = page_count + 1\<rparr>
                     | AggregateRaised e \<Rightarrow> Some \<lparr>exit = ExceptionRaised e, requests = page_count + 1\<rparr>
                     | Aggregated all_results' \<Rightarrow>
                         (case next_token L data of
                            NoMorePages \<Rightarrow>
                              Some \<lparr>exit = Returned (after_loop L all_results'), requests = page_count + 1\<rparr>
                          | TokenRaised e \<Rightarrow> Some \<lparr>exit = ExceptionRaised e, requests = page_count + 1\<rparr>
                          | NextPage tok \<Rightarrow> page_loop L loads srv (page_count + 1) tok all_results')))))"

declare page_loop.simps [code]

text \<open>
  The \<open>except\<close> clauses of the function: the text \<open>raise_for_status\<close> gives the
  \<open>HTTPError\<close>, the message dug out of the error body, and the two error results.
\<close>

definition status_error_text :: "http_response \<Rightarrow> string" where
  "status_error_text r =
     dec_nat (status_code r) @ (if status_code r < 500 then '' Client Error: '' else '' Server Error: '')
       @ reason r @ '' for url: '' @ url r"

definition error_message :: "(string \<Rightarrow> json option) \<Rightarrow> http_response \<Rightarrow> json" where
  "error_message loads r =
     (case loads (content r) of
        None \<Rightarrow> JStr (status_error_text r)
      | Some error_details \<Rightarrow>
          (case py_get error_details ''error'' (JObj []) of
             Inl _ \<Rightarrow> JStr (status_error_text r)
           | Inr err \<Rightarrow>
               (case py_get err ''message'' (JStr (status_error_text r)) of
                  Inl _ \<Rightarrow> JStr (status_error_text r)
                | Inr m \<Rightarrow> m)))"

definition exn_text :: "exn \<Rightarrow> string" where
  "exn_text e =
     (case e of
        ResourceExhausted m \<Rightarrow> m | ServiceUnavailable m \<Rightarrow> m | HTTPError m \<Rightarrow> m
      | ValueError m \<Rightarrow> m | KeyError m \<Rightarrow> m | OtherError _ m \<Rightarrow> m)"

definition fetch_result :: "(string \<Rightarrow> json option) \<Rightarrow> fetch_exit \<Rightarrow> json" where
  "fetch_result loads ex =
     (case ex of
        Returned v \<Rightarrow> v
      | HttpErrorRaised r \<Rightarrow>
          JObj [(''error'', JStr (''HTTP Error: '' @ dec_nat (status_code r))),
                (''details'', error_message loads r)]
      | ExceptionRaised e \<Rightarrow>
          JObj [(''error'', JStr ''An unexpected error occurred''), (''details'', JStr (exn_text e))])"

text \<open>
  The undecorated function, from the configuration lookup on. \<open>config\<close> is the row the
  query finds for the project (\<open>None\<close> if there is none); \<open>credentials\<close> is \<open>Some\<close> text
  when \<open>get_gcp_credentials\<close> raises with that text. Building the URL is not modelled.
  The result is the value returned and the number of HTTP requests issued.
\<close>

record api_run =
  returned :: json
  http_requests :: nat

definition error_result :: "string \<Rightarrow> api_run option" where
  "error_result msg = Some \<lparr>returned = JObj [(''error'', JStr msg)], http_requests = 0\<rparr>"

definition run_pages ::
  "(string \<Rightarrow> json option) \<Rightarrow> server \<Rightarrow> audit_details \<Rightarrow> int option \<Rightarrow> api_run option" where
  "run_pages loads srv ad mp =
     (case page_loop (read_locals ad mp) loads srv 0 JNull [] of
        None \<Rightarrow> None
      | Some run \<Rightarrow> Some \<lparr>returned = fetch_result loads (exit run), http_requests = requests run\<rparr>)"

definition make_api_request ::
  "(string \<Rightarrow> json option) \<Rightarrow> tenant_config option \<Rightarrow> string option \<Rightarrow> server \<Rightarrow> audit_details
     \<Rightarrow> int option \<Rightarrow> api_run option" where
  "make_api_request loads config credentials srv ad mp =
     (case config of
        None \<Rightarrow> error_result ''Configuration not found for this project.''
      | Some cfg \<Rightarrow>
          (let auth = (case auth_method ad of None \<Rightarrow> ''GCP'' | Some a \<Rightarrow> a) in
           if auth = ''GCP'' then
             (case credentials of
                Some msg \<Rightarrow>
                  Some \<lparr>returned = fetch_result loads (ExceptionRaised (OtherError ''Exception'' msg)),
                        http_requests = 0\<rparr>
              | None \<Rightarrow> run_pages loads srv ad mp)
           else if auth = ''SOAR_API_KEY'' then
             (if \<not> truthy_str (soar_api_key cfg) then error_result ''SOAR API Key is not configured.''
              else run_pages loads srv ad mp)
           else if auth = ''BINDPLANE_API_KEY'' then
             (if \<not> truthy_str (bindplane_api_key cfg) then error_result ''BindPlane API Key is not configured.''
              else run_pages loads srv ad mp)
           else error_result (''Unknown auth method: '' @ auth)))"

subsection \<open>\<open>json.dumps(value, indent=2)\<close>, with and without \<open>sort_keys\<close>\<close>

text \<open>
  The encoder of the standard library as the source calls it: ASCII output, two spaces of
  indentation per level, \<open>","\<close> between items and \<open>": "\<close> after a key, \<open>[]\<close> and
  \<open>{}\<close> for the empty containers. With \<open>sort_keys\<close> the items of every object are
  written in the order of their keys.
\<close>

definition json_escape :: "char \<Rightarrow> string" where
  "json_escape c =
     (let n = (of_char c :: nat) in
      if n = 34 then [CHR 0x5C, CHR 0x22]
      else if n = 92 then [CHR 0x5C, CHR 0x5C]
      else if n = 10 then [CHR 0x5C, CHR ''n'']
      else if n = 13 then [CHR 0x5C, CHR ''r'']
      else if n = 9 then [CHR 0x5C, CHR ''t'']
      else if n = 8 then [CHR 0x5C, CHR ''b'']
      else if n = 12 then [CHR 0x5C, CHR ''f'']
      else if n < 32 \<or> 127 \<le> n then [CHR 0x5C, CHR ''u'', CHR ''0'', CHR ''0''] @ hex2 n
      else [c])"

definition encode_string :: "string \<Rightarrow> string" where
  "encode_string s = [CHR 0x22] @ concat (map json_escape s) @ [CHR 0x22]"

definition float_text :: "string \<Rightarrow> string" where
  "float_text t =
     (if t = ''inf'' then ''Infinity'' else if t = ''-inf'' then ''-Infinity''
      else if t = ''nan'' then ''NaN'' else t)"

definition newline_indent :: "nat \<Rightarrow> string" where
  "newline_indent level = CHR 0x0A # replicate (2 * level) CHR '' ''"

definition in_order :: "bool \<Rightarrow> (string \<times> string) list \<Rightarrow> (string \<times> string) list" where
  "in_order sort_keys items = (if sort_keys then sort_key fst items else items)"

fun dumps_at :: "bool \<Rightarrow> nat \<Rightarrow> json \<Rightarrow> string" where
  "dumps_at sk level JNull = ''null''"
| "dumps_at sk level (JBool b) = (if b then ''true'' else ''false'')"
| "dumps_at sk level (JInt i) = dec_int i"
| "dumps_at sk level (JFloat t) = float_text t"
| "dumps_at sk level (JStr s) = encode_string s"
| "dumps_at sk level (JArr xs) =
     (if xs = [] then ''[]''
      else ''['' @ newline_indent (level + 1)
           @ join ('','' @ newline_indent (level + 1)) (map (dumps_at sk (level + 1)) xs)
           @ newline_indent level @ '']'')"
| "dumps_at sk level (JObj kvs) =
     (if kvs = [] then ''{}''
      else ''{'' @ newline_indent (level + 1)
           @ join ('','' @ newline_indent (level + 1))
               (map (\<lambda>item. encode_string (fst item) @ '': '' @ snd item)
                  (in_order sk (map (\<lambda>kv. (fst kv, dumps_at sk (level + 1) (snd kv))) kvs)))
           @ newline_indent level @ ''}'')"

definition dumps :: "bool \<Rightarrow> json \<Rightarrow> string" where
  "dumps sort_keys v = dumps_at sort_keys 0 v"

subsection \<open>Well-formed result pages\<close>





subsection \<open>\<open>celery_worker.schedule_ticker\<close>\<close>






subsection \<open>\<open>audit_logic.run_audit_logic\<close>\<close>

text \<open>
  A row of the \<open>Audit\<close> table, and the part of the database the function reads:
  the \<open>AuditType\<close> rows (id and \<open>auth_method\<close>), the dictionary
  \<open>list_available_audits_from_db()\<close> returns, the \<open>SecopsTenantConfig\<close> row of the
  project, and the \<open>Audit\<close> rows written so far.
\<close>

record audit_row =
  tenant_project_id :: string
  audit_category :: string
  audit_name :: string
  run_timestamp :: string
  status :: string
  results :: string

record database =
  audit_types :: "(nat \<times> string) list"
  available_audits :: "(string \<times> audit_details) list"
  tenant :: "tenant_config option"
  audits :: "audit_row list"

text \<open>
  What the function needs from outside: the JSON decoder, the failure text of
  \<open>get_gcp_credentials\<close> if it fails, the HTTP server that answers call \<open>x\<close> of the
  decorated \<open>make_api_request\<close>, the result of \<open>run_custom_iam_audit\<close>, the text of
  \<open>utcnow().isoformat()\<close>, and the text of the success message (it formats a float).
\<close>

record world =
  json_loads :: "string \<Rightarrow> json option"
  credentials_error :: "string option"
  servers :: "nat \<Rightarrow> server"
  iam_result :: json
  now_text :: string
  success_message :: "string \<Rightarrow> json \<Rightarrow> string"

text \<open>
  The local variable \<open>audit_details\<close> when the \<open>except\<close> clause runs: not yet assigned,
  or assigned (\<open>None\<close> when \<open>all_audits.get\<close> found nothing).
\<close>

datatype binding = Unbound | Bound "audit_details option"

text \<open>
  The first block of the \<open>try\<close> body. In an override, \<open>audit_type_id = None\<close> is a
  missing key; \<open>.one()\<close> raises \<open>NoResultFound\<close> when no row has the id.
\<close>

definition resolve_audit ::
  "database \<Rightarrow> string option \<Rightarrow> audit_details option \<Rightarrow> binding \<times> (exn + audit_details)" where
  "resolve_audit db audit_name_arg audit_details_override =
     (case audit_details_override of
        Some ov \<Rightarrow>
          (case audit_type_id ov of
             None \<Rightarrow> (Bound (Some ov), Inl (KeyError ([CHR 0x27] @ ''audit_type_id'' @ [CHR 0x27])))
           | Some i \<Rightarrow>
               (case map_of (audit_types db) i of
                  None \<Rightarrow> (Bound (Some ov),
                            Inl (OtherError ''NoResultFound'' ''No row was found when one was required''))
                | Some am \<Rightarrow> (Bound (Some (ov\<lparr>auth_method := Some am\<rparr>)), Inr (ov\<lparr>auth_method := Some am\<rparr>))))
      | None \<Rightarrow>
          if truthy_str audit_name_arg then
            (case map_of (available_audits db) (the audit_name_arg) of
               None \<Rightarrow> (Bound None,
                         Inl (ValueError (''Audit '' @ [CHR 0x27] @ the audit_name_arg @ [CHR 0x27] @ '' not found'')))
             | Some ad \<Rightarrow> (Bound (Some ad), Inr ad))
          else (Unbound,
                Inl (ValueError (''Request must include either '' @ [CHR 0x27] @ ''audit_name'' @ [CHR 0x27]
                       @ '' or '' @ [CHR 0x27] @ ''audit_details'' @ [CHR 0x27] @ ''.''))))"

text \<open>
  The call of the decorated \<open>make_api_request\<close>: \<open>retry_with_backoff(retries=3,
  backoff_in_seconds=2)\<close> around the function, which returns its result and never raises.
\<close>

definition decorated_make_api_request ::
  "world \<Rightarrow> tenant_config option \<Rightarrow> audit_details \<Rightarrow> json wrapped_run option" where
  "decorated_make_api_request w config ad =
     retry_with_backoff py_str 3 2
       (\<lambda>x. map_option (\<lambda>run. Returns (returned run))
              (make_api_request (json_loads w) config (credentials_error w) (servers w x) ad (max_pages ad)))"

text \<open>The block that produces \<open>final_response\<close>; \<open>None\<close> when the call never returns.\<close>

definition fetch_response :: "world \<Rightarrow> database \<Rightarrow> audit_details \<Rightarrow> json outcome option" where
  "fetch_response w db ad =
     (let audit_type = (if truthy_str (audit_type_name ad) then audit_type_name ad else audit_type ad) in
      if audit_type = Some ''Custom IAM'' then Some (Returns (iam_result w))
      else
        (case tenant db of
           None \<Rightarrow> Some (Raises (ValueError ''Tenant is not configured.''))
         | Some cfg \<Rightarrow> map_option final (decorated_make_api_request w (Some cfg) ad)))"

text \<open>The test \<open>if "error" in final_response\<close> and the \<open>ValueError\<close> it raises.\<close>

definition check_response :: "json \<Rightarrow> json outcome" where
  "check_response final_response =
     (case py_in ''error'' final_response of
        Inl e \<Rightarrow> Raises e
      | Inr False \<Rightarrow> Returns final_response
      | Inr True \<Rightarrow>
          (case py_get final_response ''error'' (JStr ''Unknown error'') of
             Inl e \<Rightarrow> Raises e
           | Inr dflt \<Rightarrow>
               (case py_get final_response ''details'' dflt of
                  Inl e \<Rightarrow> Raises e
                | Inr error_detail \<Rightarrow> Raises (ValueError (py_str error_detail)))))"

text \<open>
  \<open>db_session.add\<close> and \<open>commit\<close> of a new row: the \<open>audit_name\<close> column is not
  nullable, so a row without a name is refused with an \<open>IntegrityError\<close>.
\<close>

definition insert_audit ::
  "world \<Rightarrow> string \<Rightarrow> audit_details option \<Rightarrow> string option \<Rightarrow> string \<Rightarrow> string \<Rightarrow> audit_row list
     \<Rightarrow> exn + audit_row list" where
  "insert_audit w project_id ad current_audit_name st res rows =
     (case current_audit_name of
        None \<Rightarrow> Inl (OtherError ''IntegrityError'' ''NOT NULL constraint failed: audit.audit_name'')
      | Some n \<Rightarrow>
          Inr (rows @ [\<lparr>tenant_project_id = project_id,
                        audit_category =
                          (case ad of None \<Rightarrow> ''Unknown''
                           | Some d \<Rightarrow> (case category d of None \<Rightarrow> ''Unknown'' | Some c \<Rightarrow> c)),
                        audit_name = n, run_timestamp = now_text w, status = st, results = res\<rparr>]))"

text \<open>The rest of the \<open>try\<close> body once \<open>final_response\<close> has passed the test.\<close>

definition record_success ::
  "world \<Rightarrow> string \<Rightarrow> string option \<Rightarrow> audit_details \<Rightarrow> json \<Rightarrow> audit_row list
     \<Rightarrow> json outcome \<times> audit_row list" where
  "record_success w project_id audit_name_arg ad final_response rows =
     (let current_audit_name = (if truthy_str (name ad) then name ad else audit_name_arg) in
      case insert_audit w project_id (Some ad) current_audit_name ''Success'' (dumps False final_response) rows of
        Inl e \<Rightarrow> (Raises e, rows)
      | Inr rows' \<Rightarrow>
          (Returns (JObj [(''message'', JStr (success_message w (the current_audit_name) final_response))]),
           rows'))"

text \<open>
  The clause \<open>except (ValueError, KeyError) as e\<close>. Any other exception passes it by.
  Reading \<open>audit_details\<close> before it was assigned raises \<open>UnboundLocalError\<close>.
\<close>

definition except_clause ::
  "world \<Rightarrow> string \<Rightarrow> string option \<Rightarrow> binding \<Rightarrow> exn \<Rightarrow> audit_row list \<Rightarrow> json outcome \<times> audit_row list"
where
  "except_clause w project_id audit_name_arg b e rows =
     (let persist =
        (case b of
           Unbound \<Rightarrow>
             (Raises (OtherError ''UnboundLocalError''
                (''cannot access local variable '' @ [CHR 0x27] @ ''audit_details'' @ [CHR 0x27]
                 @ '' where it is not associated with a value'')), rows)
         | Bound ad \<Rightarrow>
             (let current_audit_name =
                (case ad of
                   None \<Rightarrow> Some ''Unknown''
                 | Some d \<Rightarrow> (if truthy_str (name d) then name d else audit_name_arg))
              in case insert_audit w project_id ad current_audit_name ''Failed''
                        (dumps False (JObj [(''error'', JStr (exn_text e))])) rows of
                   Inl e' \<Rightarrow> (Raises e', rows)
                 | Inr rows' \<Rightarrow> (Raises e, rows')))
      in case e of
           ValueError _ \<Rightarrow> persist
         | KeyError _ \<Rightarrow> persist
         | _ \<Rightarrow> (Raises e, rows))"

text \<open>
  The function: what it returns or raises, and the \<open>Audit\<close> table afterwards. \<open>None\<close>
  when the fetch never returns.
\<close>

definition run_audit_logic ::
  "world \<Rightarrow> database \<Rightarrow> string \<Rightarrow> string option \<Rightarrow> audit_details option
     \<Rightarrow> (json outcome \<times> audit_row list) option" where
  "run_audit_logic w db project_id audit_name_arg audit_details_override =
     (case resolve_audit db audit_name_arg audit_details_override of
        (b, Inl e) \<Rightarrow> Some (except_clause w project_id audit_name_arg b e (audits db))
      | (b, Inr ad) \<Rightarrow>
          (case fetch_response w db ad of
             None \<Rightarrow> None
           | Some (Raises e) \<Rightarrow> Some (except_clause w project_id audit_name_arg b e (audits db))
           | Some (Returns final_response) \<Rightarrow>
               (case check_response final_response of
                  Raises e \<Rightarrow> Some (except_clause w project_id audit_name_arg b e (audits db))
                | Returns v \<Rightarrow> Some (record_success w project_id audit_name_arg ad v (audits db)))))"

subsection \<open>\<open>utils.generate_json_diff\<close>\<close>

text \<open>\<open>str.splitlines()\<close>: the lines of \<open>splitlines(keepends=True)\<close> without their terminators.\<close>

definition drop_line_end :: "string \<Rightarrow> string" where
  "drop_line_end l =
     (if 2 \<le> length l \<and> of_char (last (butlast l)) = (13::nat) \<and> of_char (last l) = (10::nat)
      then butlast (butlast l)
      else if l \<noteq> [] \<and> is_linebreak (last l) then butlast l
      else l)"

definition splitlines :: "string \<Rightarrow> string list" where
  "splitlines s = map drop_line_end (splitlines_keepends s)"

text \<open>
  \<open>json.loads\<close> and \<open>difflib.unified_diff\<close> belong to the standard library and are
  parameters: \<open>loads\<close> gives \<open>None\<close> where the decoder raises \<open>JSONDecodeError\<close>, whose
  text \<open>decode_error\<close> supplies; \<open>unified_diff\<close> takes the two line lists and the two
  file names and gives the lines of the diff.
\<close>

definition generate_json_diff ::
  "(string \<Rightarrow> json option) \<Rightarrow> (string \<Rightarrow> string)
     \<Rightarrow> (string list \<Rightarrow> string list \<Rightarrow> string \<Rightarrow> string \<Rightarrow> string list)
     \<Rightarrow> string \<Rightarrow> string \<Rightarrow> string \<Rightarrow> string \<Rightarrow> string" where
  "generate_json_diff loads decode_error unified_diff json_str1 json_str2 fromfile tofile =
     (case loads json_str1 of
        None \<Rightarrow> ''Error decoding JSON: '' @ decode_error json_str1
      | Some data1 \<Rightarrow>
          (case loads json_str2 of
             None \<Rightarrow> ''Error decoding JSON: '' @ decode_error json_str2
           | Some data2 \<Rightarrow>
               (let formatted_str1 = splitlines (dumps True data1);
                    formatted_str2 = splitlines (dumps True data2);
                    diff_output = join [CHR 0x0A] (unified_diff formatted_str1 formatted_str2 fromfile tofile)
                in if diff_output = [] then ''No differences found between the two audit runs.''
                   else diff_output)))"

text \<open>
  Two decoded documents are equal up to the order of object keys: arrays agree item by
  item, objects have the same number of items and every item of the first has an item of
  the second with the same key and an equal value in this sense. A decoded document is
  well formed when no object has a key twice, as in every Python \<open>dict\<close>.
\<close>

fun well_formed :: "json \<Rightarrow> bool" where
  "well_formed (JArr xs) = (\<forall>x \<in> set xs. well_formed x)"
| "well_formed (JObj kvs) = (distinct (map fst kvs) \<and> (\<forall>kv \<in> set kvs. well_formed (snd kv)))"
| "well_formed v = True"

fun same_but_key_order :: "json \<Rightarrow> json \<Rightarrow> bool" where
  "same_but_key_order (JArr xs) (JArr ys) = list_all2 same_but_key_order xs ys"
| "same_but_key_order (JObj xs) (JObj ys) =
     (length xs = length ys \<and>
      (\<forall>kv \<in> set xs. \<exists>kv' \<in> set ys. fst kv = fst kv' \<and> same_but_key_order (snd kv) (snd kv')))"
| "same_but_key_order a b = (a = b)"

subsection \<open>\<open>utils.generate_gemini_summary\<close>\<close>

text \<open>
  The generative-AI service is reached by two calls of the client: \<open>model.count_tokens\<close>
  and \<open>model.generate_content\<close>. Both are parameters, and every call is written to a log.
  \<open>token_counter\<close> gives \<open>None\<close> where the call raises; \<open>generator\<close> is given the number
  of earlier \<open>generate_content\<close> calls, the prompt and \<open>max_output_tokens\<close>, and
  answers with a response that has parts (its text), with one that has none (the details
  the source puts into its error result), or by raising.
\<close>

datatype ai_call = CountTokens json | GenerateContent string int

datatype gemini_reply = Parts string | Blocked string | GenFails exn

record ai_service =
  token_counter :: "json \<Rightarrow> int option"
  generator :: "nat \<Rightarrow> string \<Rightarrow> int \<Rightarrow> gemini_reply"

record gemini_config =
  max_tokens_per_chunk :: int
  final_max_output_tokens :: int
  map_max_output_tokens :: int

definition no_data_message :: string where
  "no_data_message = ''No data available for this audit. The API returned an empty result.''"

text \<open>\<open>any(data)\<close> on a \<open>list\<close> (its items) and on a \<open>dict\<close> (its keys).\<close>

definition py_any :: "json \<Rightarrow> bool" where
  "py_any v =
     (case v of
        JArr xs \<Rightarrow> (\<exists>x \<in> set xs. truthy x)
      | JObj kvs \<Rightarrow> (\<exists>kv \<in> set kvs. fst kv \<noteq> [])
      | _ \<Rightarrow> False)"

definition is_list_or_dict :: "json \<Rightarrow> bool" where
  "is_list_or_dict v = (case v of JArr _ \<Rightarrow> True | JObj _ \<Rightarrow> True | _ \<Rightarrow> False)"

text \<open>The condition of the first \<open>if\<close> of the function.\<close>

definition nothing_to_process :: "json \<Rightarrow> bool" where
  "nothing_to_process data = (\<not> truthy data \<or> (is_list_or_dict data \<and> \<not> py_any data))"

text \<open>\<open>str.strip()\<close> and \<open>_build_full_prompt\<close>; \<open>now\<close> is the text of \<open>utcnow().isoformat()\<close>.\<close>

definition is_space :: "char \<Rightarrow> bool" where
  "is_space c = (of_char c \<in> {9, 10, 11, 12, 13, 28, 29, 30, 31, 32, 133, 160 :: nat})"

definition strip :: "string \<Rightarrow> string" where
  "strip s = rev (dropWhile is_space (rev (dropWhile is_space s)))"

definition build_full_prompt :: "string \<Rightarrow> string \<Rightarrow> string \<Rightarrow> string \<Rightarrow> exn + string" where
  "build_full_prompt now prompt data_string audit_label =
     (let trimmed = strip data_string;
          heading = ''The current date and time is '' @ now @ '' UTC.'' @ [CHR 0x0A, CHR 0x0A]
                    @ prompt @ [CHR 0x0A, CHR 0x0A]
                    @ ''Analyze the following data for the '' @ [CHR 0x27] @ audit_label @ [CHR 0x27]
                    @ '' audit:'' @ [CHR 0x0A, CHR 0x0A];
          fence = replicate 3 (CHR 0x60)
      in if starts_with ''{'' trimmed \<or> starts_with ''['' trimmed
         then Inr (heading @ fence @ ''json'' @ [CHR 0x0A] @ data_string @ [CHR 0x0A] @ fence)
         else
           (case splitlines trimmed of
              [] \<Rightarrow> Inl (OtherError ''IndexError'' ''list index out of range'')
            | first_line # _ \<Rightarrow>
                if CHR '','' \<in> set first_line
                then Inr (heading @ fence @ ''csv'' @ [CHR 0x0A] @ data_string @ [CHR 0x0A] @ fence)
                else Inr (heading @ data_string)))"

text \<open>
  \<open>_call_gemini_with_retry\<close>: \<open>generate_content\<close> under \<open>retry_with_backoff(retries=5,
  backoff_in_seconds=2)\<close>. A response is an object and not a \<open>dict\<close>, so the wrapper hands
  it back untouched; inside the wrapper it is represented by \<open>JNull\<close>, and the reply is
  that of the last call. \<open>made\<close> is the number of \<open>generate_content\<close> calls made before.
  The result is the reply and the number of calls of this run.
\<close>

definition call_gemini_with_retry :: "ai_service \<Rightarrow> nat \<Rightarrow> string \<Rightarrow> int \<Rightarrow> (gemini_reply \<times> nat) option" where
  "call_gemini_with_retry ai made full_prompt cap =
     (case retry_with_backoff py_str 5 2
             (\<lambda>x. Some (case generator ai (made + x) full_prompt cap of
                            GenFails e \<Rightarrow> Raises e
                          | _ \<Rightarrow> Returns JNull)) of
        None \<Rightarrow> None
      | Some run \<Rightarrow> Some (generator ai (made + (calls run - 1)) full_prompt cap, calls run))"

text \<open>\<open>_handle_gemini_response\<close> on a response; a raised exception does not reach it.\<close>

definition handle_gemini_response :: "gemini_reply \<Rightarrow> exn + json" where
  "handle_gemini_response reply =
     (case reply of
        Parts t \<Rightarrow> Inr (JStr t)
      | Blocked details \<Rightarrow> Inr (JObj [(''error'', JStr details)])
      | GenFails e \<Rightarrow> Inl e)"

text \<open>
  One prompt sent and its response handled: the summary or the exception, the log and the
  count of \<open>generate_content\<close> calls afterwards.
\<close>

definition ask :: "ai_service \<Rightarrow> string \<Rightarrow> int \<Rightarrow> ai_call list \<times> nat \<Rightarrow> ((exn + json) \<times> ai_call list \<times> nat) option" where
  "ask ai full_prompt cap st =
     (case call_gemini_with_retry ai (snd st) full_prompt cap of
        None \<Rightarrow> None
      | Some (reply, n) \<Rightarrow>
          Some (handle_gemini_response reply,
                fst st @ replicate n (GenerateContent full_prompt cap), snd st + n))"

text \<open>The map phase: the loop over the chunks, \<open>i\<close> counting from 0.\<close>

definition chunk_prompt :: string where
  "chunk_prompt = ''This is one part of a larger dataset. Please summarize the key findings from this specific chunk of data. Do not draw final conclusions, as you only have a partial view.''"

fun map_chunks ::
  "ai_service \<Rightarrow> gemini_config \<Rightarrow> string \<Rightarrow> string \<Rightarrow> nat \<Rightarrow> string list \<Rightarrow> json list \<Rightarrow> ai_call list \<times> nat
     \<Rightarrow> ((exn + json list) \<times> ai_call list \<times> nat) option" where
  "map_chunks ai cfg now audit_label i [] partial_summaries st = Some (Inr partial_summaries, st)"
| "map_chunks ai cfg now audit_label i (chunk # chunks) partial_summaries st =
     (case build_full_prompt now chunk_prompt chunk (audit_label @ '' (Part '' @ dec_nat (i + 1) @ '')'') of
        Inl e \<Rightarrow> Some (Inl e, st)
      | Inr full_prompt \<Rightarrow>
          (case ask ai full_prompt (map_max_output_tokens cfg) st of
             None \<Rightarrow> None
           | Some (Inl e, st') \<Rightarrow> Some (Inl e, st')
           | Some (Inr summary, st') \<Rightarrow>
               map_chunks ai cfg now audit_label (i + 1) chunks (partial_summaries @ [summary]) st'))"

text \<open>\<open>"\n\n---\n\n".join(partial_summaries)\<close>: a \<open>TypeError\<close> unless every item is a \<open>str\<close>.\<close>

definition join_summaries :: "json list \<Rightarrow> exn + string" where
  "join_summaries partial_summaries =
     (if \<forall>p \<in> set partial_summaries. (case p of JStr _ \<Rightarrow> True | _ \<Rightarrow> False)
      then Inr (join ([CHR 0x0A, CHR 0x0A] @ ''---'' @ [CHR 0x0A, CHR 0x0A])
                  (map (\<lambda>p. case p of JStr t \<Rightarrow> t | _ \<Rightarrow> []) partial_summaries))
      else Inl (OtherError ''TypeError'' ''sequence item: expected str instance, dict found''))"

text \<open>\<open>len(data_string)\<close> for the fallback count.\<close>

definition py_len :: "json \<Rightarrow> exn + nat" where
  "py_len v =
     (case v of
        JStr s \<Rightarrow> Inr (length s)
      | JArr xs \<Rightarrow> Inr (length xs)
      | JObj kvs \<Rightarrow> Inr (length kvs)
      | _ \<Rightarrow> Inl (OtherError ''TypeError'' (''object of type '' @ [CHR 0x27] @ type_name v @ [CHR 0x27] @ '' has no len()'')))"

text \<open>
  The \<open>try\<close> body. \<open>data_string\<close> is the pretty-printed JSON when \<open>data\<close> is a \<open>str\<close> that
  decodes, and \<open>data\<close> itself otherwise. A \<open>data_string\<close> that is not a \<open>str\<close> has no
  \<open>strip\<close> and no \<open>splitlines\<close>, which is the \<open>AttributeError\<close> below.
\<close>

definition no_str_method :: "json \<Rightarrow> string \<Rightarrow> exn" where
  "no_str_method v m = OtherError ''AttributeError''
     ([CHR 0x27] @ type_name v @ [CHR 0x27] @ '' object has no attribute '' @ [CHR 0x27] @ m @ [CHR 0x27])"

definition reduce_prompt :: "string \<Rightarrow> string" where
  "reduce_prompt prompt = prompt @ [CHR 0x0A, CHR 0x0A]
     @ ''The following are several partial summaries... Your task is to synthesize them...''"

definition data_string_of :: "(string \<Rightarrow> json option) \<Rightarrow> json \<Rightarrow> json" where
  "data_string_of loads data =
     (case data of
        JStr s \<Rightarrow> (case loads s of Some d \<Rightarrow> JStr (dumps False d) | None \<Rightarrow> data)
      | _ \<Rightarrow> data)"

text \<open>The count of \<open>data_string\<close>, with the fallback to a quarter of its length.\<close>

definition count_data :: "ai_service \<Rightarrow> json \<Rightarrow> exn + int" where
  "count_data ai data_string =
     (case token_counter ai data_string of
        Some n \<Rightarrow> Inr n
      | None \<Rightarrow> (case py_len data_string of Inl e \<Rightarrow> Inl e | Inr l \<Rightarrow> Inr (int l div 4)))"

text \<open>
  \<open>prompt_tokens\<close>: the count of the template minus the count of the placeholder, with
  the calls made for it. The second count is not made when the first one raises.
\<close>

definition count_prompt :: "ai_service \<Rightarrow> string \<Rightarrow> string \<Rightarrow> string \<Rightarrow> (exn + int) \<times> ai_call list" where
  "count_prompt ai now prompt audit_label =
     (case build_full_prompt now prompt ''[DATA_PLACEHOLDER]'' audit_label of
        Inl e \<Rightarrow> (Inl e, [])
      | Inr template_prompt \<Rightarrow>
          (case token_counter ai (JStr template_prompt) of
             None \<Rightarrow> (Inl (OtherError ''Exception'' ''count_tokens failed''),
                       [CountTokens (JStr template_prompt)])
           | Some template_tokens \<Rightarrow>
               (case token_counter ai (JStr ''[DATA_PLACEHOLDER]'') of
                  None \<Rightarrow> (Inl (OtherError ''Exception'' ''count_tokens failed''),
                            [CountTokens (JStr template_prompt), CountTokens (JStr ''[DATA_PLACEHOLDER]'')])
                | Some placeholder_tokens \<Rightarrow>
                    (Inr (template_tokens - placeholder_tokens),
                     [CountTokens (JStr template_prompt), CountTokens (JStr ''[DATA_PLACEHOLDER]'')]))))"

text \<open>The branch for data that fits into one call.\<close>

definition single_call ::
  "ai_service \<Rightarrow> gemini_config \<Rightarrow> string \<Rightarrow> string \<Rightarrow> json \<Rightarrow> string \<Rightarrow> ai_call list
     \<Rightarrow> ((exn + json) \<times> ai_call list \<times> nat) option" where
  "single_call ai cfg now prompt data_string audit_label log =
     (case data_string of
        JStr s \<Rightarrow>
          (case build_full_prompt now prompt s audit_label of
             Inl e \<Rightarrow> Some (Inl e, log, 0)
           | Inr full_prompt \<Rightarrow> ask ai full_prompt (final_max_output_tokens cfg) (log, 0))
      | _ \<Rightarrow> Some (Inl (no_str_method data_string ''strip''), log, 0))"

text \<open>The map-reduce branch; the chunker counts the tokens of every line.\<close>

definition reduce_phase ::
  "ai_service \<Rightarrow> gemini_config \<Rightarrow> string \<Rightarrow> string \<Rightarrow> string \<Rightarrow> json list \<Rightarrow> ai_call list \<times> nat
     \<Rightarrow> ((exn + json) \<times> ai_call list \<times> nat) option" where
  "reduce_phase ai cfg now prompt audit_label partial_summaries st =
     (case join_summaries partial_summaries of
        Inl e \<Rightarrow> Some (Inl e, st)
      | Inr combined_summary_text \<Rightarrow>
          (case build_full_prompt now (reduce_prompt prompt) combined_summary_text audit_label of
             Inl e \<Rightarrow> Some (Inl e, st)
           | Inr final_prompt \<Rightarrow> ask ai final_prompt (final_max_output_tokens cfg) st))"

definition map_reduce ::
  "ai_service \<Rightarrow> gemini_config \<Rightarrow> string \<Rightarrow> string \<Rightarrow> json \<Rightarrow> string \<Rightarrow> int \<Rightarrow> ai_call list
     \<Rightarrow> ((exn + json) \<times> ai_call list \<times> nat) option" where
  "map_reduce ai cfg now prompt data_string audit_label prompt_tokens log =
     (case data_string of
        JStr s \<Rightarrow>
          (let chunks = chunk_data_by_tokens s (\<lambda>line. token_counter ai (JStr line))
                          (max_tokens_per_chunk cfg - prompt_tokens);
               log' = log @ map (\<lambda>line. CountTokens (JStr line)) (splitlines_keepends s)
           in case map_chunks ai cfg now audit_label 0 chunks [] (log', 0) of
                None \<Rightarrow> None
              | Some (Inl e, st) \<Rightarrow> Some (Inl e, st)
              | Some (Inr partial_summaries, st) \<Rightarrow>
                  reduce_phase ai cfg now prompt audit_label partial_summaries st)
      | _ \<Rightarrow> Some (Inl (no_str_method data_string ''splitlines''), log, 0))"

definition summarize ::
  "ai_service \<Rightarrow> gemini_config \<Rightarrow> (string \<Rightarrow> json option) \<Rightarrow> string \<Rightarrow> string \<Rightarrow> json \<Rightarrow> string
     \<Rightarrow> ((exn + json) \<times> ai_call list \<times> nat) option" where
  "summarize ai cfg loads now prompt data audit_label =
     (let data_string = data_string_of loads data;
          log1 = [CountTokens data_string]
      in case count_data ai data_string of
           Inl e \<Rightarrow> Some (Inl e, log1, 0)
         | Inr data_tokens \<Rightarrow>
             (case count_prompt ai now prompt audit_label of
                (Inl e, counted) \<Rightarrow> Some (Inl e, log1 @ counted, 0)
              | (Inr prompt_tokens, counted) \<Rightarrow>
                  if data_tokens + prompt_tokens < max_tokens_per_chunk cfg
                  then single_call ai cfg now prompt data_string audit_label (log1 @ counted)
                  else map_reduce ai cfg now prompt data_string audit_label prompt_tokens (log1 @ counted)))"

text \<open>
  The function: the summary text or the error result, and the calls made to the service.
  \<open>except Exception\<close> turns whatever the \<open>try\<close> body raises into an error result.
\<close>

definition generate_gemini_summary ::
  "ai_service \<Rightarrow> gemini_config \<Rightarrow> (string \<Rightarrow> json option) \<Rightarrow> string \<Rightarrow> string \<Rightarrow> json \<Rightarrow> string
     \<Rightarrow> (json \<times> ai_call list) option" where
  "generate_gemini_summary ai cfg loads now prompt data audit_label =
     (if nothing_to_process data then Some (JStr no_data_message, [])
      else
        (case summarize ai cfg loads now prompt data audit_label of
           None \<Rightarrow> None
         | Some (Inr summary, log, n) \<Rightarrow> Some (summary, log)
         | Some (Inl e, log, n) \<Rightarrow>
             Some (JObj [(''error'',
                     JStr (''An error occurred while generating the summary for '' @ [CHR 0x27] @ audit_label
                           @ [CHR 0x27] @ '': '' @ exn_text e))], log)))"

subsection \<open>Example inputs\<close>

text \<open>
  A server with the two pages \<open>{"items": [1, 2], "next": "t1"}\<close> and
  \<open>{"items": [3], "next": "t2"}\<close>, then a body that is not JSON; the decoder on these bodies.
\<close>

definition example_page :: "nat \<Rightarrow> json" where
  "example_page i =
     (if i = 0 then JObj [(''items'', JArr [JInt 1, JInt 2]), (''next'', JStr ''t1'')]
      else JObj [(''items'', JArr [JInt 3]), (''next'', JStr ''t2'')])"

definition example_loads :: "string \<Rightarrow> json option" where
  "example_loads s =
     (if s = ''page0'' then Some (example_page 0)
      else if s = ''page1'' then Some (example_page 1)
      else None)"

definition example_server :: server where
  "example_server i ps =
     Reply \<lparr>status_code = 200,
            content = (if i = 0 then ''page0'' else if i = 1 then ''page1'' else ''<html>down</html>''),
            reason = ''OK'', url = ''https://example.test/v1/items''\<rparr>"

definition example_audit :: audit_details where
  "example_audit =
     \<lparr>name = Some ''Items'', category = Some ''Demo'', auth_method = Some ''GCP'',
      audit_type_name = Some ''Standard'', audit_type = None, audit_type_id = None,
      pagination_token_key = Some ''next'', pagination_results_key = Some ''items'',
      pagination_request_token_key = Some ''pageToken'', default_page_size = Some 100,
      max_pages = Some 2\<rparr>"

text \<open>
  A server that answers every request with status 429, one that answers with status 500,
  and a project whose tenant is configured and offers the audit \<open>Items\<close>.
\<close>

definition status_server :: "nat \<Rightarrow> string \<Rightarrow> server" where
  "status_server code why i ps =
     Reply \<lparr>status_code = code, content = ''busy'', reason = why, url = ''https://example.test/v1/items''\<rparr>"

definition example_db :: database where
  "example_db =
     \<lparr>audit_types = [(1, ''GCP'')],
      available_audits = [(''Items'', example_audit)],
      tenant = Some \<lparr>soar_api_key = None, bindplane_api_key = None\<rparr>,
      audits = []\<rparr>"

definition example_world :: "server \<Rightarrow> world" where
  "example_world srv =
     \<lparr>json_loads = example_loads, credentials_error = None, servers = (\<lambda>x. srv), iam_result = JObj [(''roles'', JObj [])],
      now_text = ''2025-01-01T00:00:00'', success_message = (\<lambda>n v. ''Audit completed'')\<rparr>"

text \<open>
  The documents \<open>{"a":1,"b":2}\<close> and \<open>{"b":2,"a":1}\<close> with their decoder, and a line
  differ that reports nothing for equal texts and replaces the whole text otherwise.
\<close>

definition doc_ab :: string where
  "doc_ab = ''{'' @ [CHR 0x22] @ ''a'' @ [CHR 0x22] @ '':1,'' @ [CHR 0x22] @ ''b'' @ [CHR 0x22] @ '':2}''"

definition doc_ba :: string where
  "doc_ba = ''{'' @ [CHR 0x22] @ ''b'' @ [CHR 0x22] @ '':2,'' @ [CHR 0x22] @ ''a'' @ [CHR 0x22] @ '':1}''"

definition doc_loads :: "string \<Rightarrow> json option" where
  "doc_loads s =
     (if s = doc_ab then Some (JObj [(''a'', JInt 1), (''b'', JInt 2)])
      else if s = doc_ba then Some (JObj [(''b'', JInt 2), (''a'', JInt 1)])
      else None)"

definition replace_all_diff :: "string list \<Rightarrow> string list \<Rightarrow> string \<Rightarrow> string \<Rightarrow> string list" where
  "replace_all_diff a b fromfile tofile =
     (if a = b then []
      else [''--- '' @ fromfile, ''+++ '' @ tofile] @ map (\<lambda>l. CHR ''-'' # l) a @ map (\<lambda>l. CHR ''+'' # l) b)"

text \<open>
  A service that counts one token per four characters and answers every prompt with the
  text \<open>summary\<close>.
\<close>

definition example_ai :: ai_service where
  "example_ai =
     \<lparr>token_counter = (\<lambda>v. case v of JStr s \<Rightarrow> Some (int (length s) div 4) | _ \<Rightarrow> None),
      generator = (\<lambda>n p cap. Parts ''summary'')\<rparr>"

definition example_config :: gemini_config where
  "example_config = \<lparr>max_tokens_per_chunk = 900000, final_max_output_tokens = 8192, map_max_output_tokens = 2048\<rparr>"

section \<open>Properties\<close>

subsection \<open>Chunking is lossless and cuts at line ends\<close>

lemma concat_splitlines_keep: "concat (splitlines_keep cur s) = cur @ s"
  by (induction cur s rule: splitlines_keep.induct) auto

lemma chunk_loop_groups:
  "\<exists>groups. chunk_loop ct mx lines chunks cur tok = chunks @ map concat groups
      \<and> concat groups = cur @ lines \<and> [] \<notin> set groups"
proof (induction lines arbitrary: chunks cur tok)
  case Nil
  show ?case
  proof (cases "cur = []")
    case True
    then show ?thesis by (intro exI [of _ "[]"]) simp
  next
    case False
    then show ?thesis by (intro exI [of _ "[cur]"]) simp
  qed
next
  case (Cons line lines)
  show ?case
  proof (cases "tok + line_token_count ct line > mx")
    case True
    let ?chunks' = "if cur \<noteq> [] then chunks @ [concat cur] else chunks"
    obtain gs where gs:
      "chunk_loop ct mx lines ?chunks' [line] (line_token_count ct line) = ?chunks' @ map concat gs"
      "concat gs = [line] @ lines" "[] \<notin> set gs"
      using Cons.IH [of ?chunks' "[line]" "line_token_count ct line"] by blast
    show ?thesis
    proof (cases "cur = []")
      case True
      with gs \<open>tok + line_token_count ct line > mx\<close> show ?thesis
        by (intro exI [of _ gs]) (simp add: Let_def)
    next
      case False
      with gs \<open>tok + line_token_count ct line > mx\<close> show ?thesis
        by (intro exI [of _ "cur # gs"]) (simp add: Let_def)
    qed
  next
    case False
    obtain gs where gs:
      "chunk_loop ct mx lines chunks (cur @ [line]) (tok + line_token_count ct line)
         = chunks @ map concat gs"
      "concat gs = (cur @ [line]) @ lines" "[] \<notin> set gs"
      using Cons.IH [of chunks "cur @ [line]" "tok + line_token_count ct line"] by blast
    with False show ?thesis
      by (intro exI [of _ gs]) (simp add: Let_def)
  qed
qed

text \<open>
  C7. For every input string, token counter and token budget, the chunks of
  \<open>chunk_data_by_tokens\<close> concatenate to the input; and the chunks are the concatenations
  of consecutive non-empty groups of the input's lines (as \<open>splitlines(keepends=True)\<close>
  gives them), so a chunk boundary is always a line boundary.
\<close>

theorem chunk_data_by_tokens_lossless:
  "concat (chunk_data_by_tokens s ct mx) = s \<and>
   (\<exists>groups. concat groups = splitlines_keepends s \<and> [] \<notin> set groups \<and>
      chunk_data_by_tokens s ct mx = map concat groups)"
proof -
  obtain gs where gs: "chunk_data_by_tokens s ct mx = map concat gs"
    "concat gs = splitlines_keepends s" "[] \<notin> set gs"
    using chunk_loop_groups [of ct mx "splitlines_keepends s" "[]" "[]" 0]
    by (auto simp: chunk_data_by_tokens_def)
  have "concat (map concat gs) = concat (concat gs)"
    by (induction gs) auto
  then have "concat (chunk_data_by_tokens s ct mx) = s"
    using gs by (simp add: splitlines_keepends_def concat_splitlines_keep)
  with gs show ?thesis by blast
qed

theorem chunk_data_by_tokens_lossless_witness:
  "chunk_data_by_tokens ''ab\<newline>cd\<newline>ef'' (\<lambda>_. Some 1) 2 = [''ab\<newline>cd\<newline>'', ''ef''] \<and>
   concat (chunk_data_by_tokens ''ab\<newline>cd\<newline>ef'' (\<lambda>_. Some 1) 2) = ''ab\<newline>cd\<newline>ef'' \<and>
   splitlines_keepends ''ab\<newline>cd\<newline>ef'' = [''ab\<newline>'', ''cd\<newline>'', ''ef'']"
  using chunk_data_by_tokens_lossless [of "''ab\<newline>cd\<newline>ef''" "\<lambda>_. Some 1" 2]
  by (simp add: chunk_data_by_tokens_def splitlines_keepends_def is_linebreak_def
      line_token_count_def)

subsection \<open>The retry wrapper\<close>

lemma retry_loop_returns:
  "f x = Some c \<Longrightarrow> try_body str_of c = Returns r \<Longrightarrow>
   retry_loop str_of f retries backoff x slept = Some \<lparr>final = Returns r, calls = Suc x, sleeps = slept\<rparr>"
  by (subst retry_loop.simps) simp


lemma retry_loop_last:
  "f x = Some c \<Longrightarrow> try_body str_of c = Raises e \<Longrightarrow> handler_retries e \<Longrightarrow> int x = retries \<Longrightarrow>
   retry_loop str_of f retries backoff x slept = Some \<lparr>final = Raises e, calls = Suc x, sleeps = slept\<rparr>"
  by (subst retry_loop.simps) simp

lemma retry_loop_again:
  "f x = Some c \<Longrightarrow> try_body str_of c = Raises e \<Longrightarrow> handler_retries e \<Longrightarrow> int x \<noteq> retries \<Longrightarrow>
   retry_loop str_of f retries backoff x slept =
     retry_loop str_of f retries backoff (Suc x) (slept @ [backoff * 2 ^ x])"
  by (subst retry_loop.simps) simp

lemma retry_loop_all_retryable:
  assumes "\<And>k. x \<le> k \<Longrightarrow> k \<le> n \<Longrightarrow>
             f k = Some (c k) \<and> try_body str_of (c k) = Raises (e k) \<and> handler_retries (e k)"
    and "x \<le> n"
  shows "retry_loop str_of f (int n) backoff x slept =
           Some \<lparr>final = Raises (e n), calls = Suc n,
                 sleeps = slept @ map (\<lambda>k. backoff * 2 ^ k) [x..<n]\<rparr>"
  using assms
proof (induction "n - x" arbitrary: x slept)
  case 0
  then have "x = n" by simp
  with "0.prems"(1) [of n] show ?case
    using retry_loop_last [of f n "c n" str_of "e n" "int n" backoff slept] by simp
next
  case (Suc d)
  then have lt: "x < n" by simp
  have step: "f x = Some (c x)" "try_body str_of (c x) = Raises (e x)" "handler_retries (e x)"
    using Suc.prems(1) [of x] lt by simp_all
  have ih: "retry_loop str_of f (int n) backoff (Suc x) (slept @ [backoff * 2 ^ x]) =
           Some \<lparr>final = Raises (e n), calls = Suc n,
                 sleeps = (slept @ [backoff * 2 ^ x]) @ map (\<lambda>k. backoff * 2 ^ k) [Suc x..<n]\<rparr>"
    using Suc.hyps(1) [of "Suc x" "slept @ [backoff * 2 ^ x]"] Suc.hyps(2) Suc.prems(1) lt
    by simp
  have ne: "int x \<noteq> int n" using lt by simp
  have "[x..<n] = x # [Suc x..<n]" using lt by (simp add: upt_conv_Cons)
  with ih show ?case
    by (simp add: retry_loop_again [where f = f and x = x, OF step ne])
qed

lemma retry_loop_calls:
  assumes "retry_loop str_of f retries backoff x slept = Some y"
  shows "x < calls y"
proof -
  have "(case (((((str_of, f), retries), backoff), x), slept) of
          (p, sl) \<Rightarrow> (case p of (p, x) \<Rightarrow> (case p of (p, b) \<Rightarrow> (case p of (p, r) \<Rightarrow>
            (case p of (s, f) \<Rightarrow> (\<lambda>r b x sl y. x < calls y)) r) b) x) sl) y"
  proof (rule retry_loop.raw_induct [where P = "\<lambda>s f r b x sl y. x < calls y"], goal_cases)
    case (1 rl s f r b x sl y)
    then show ?case
      by (auto split: option.splits outcome.splits if_splits dest!: "1"(1) simp: Suc_lessD)
  next
    case 2
    show ?case using assms by simp
  qed
  then show ?thesis by simp
qed

lemma try_body_raises: "try_body str_of (Raises e) = Raises e"
  by (simp add: try_body_def)

lemma try_body_payload:
  "payload_429 str_of r \<Longrightarrow>
   try_body str_of (Returns r) = Raises (HTTPError (''Status 429: '' @ str_of (get_or r ''details'' (JStr ''''))))"
  by (simp add: try_body_def)

lemma try_body_plain: "\<not> payload_429 str_of r \<Longrightarrow> try_body str_of (Returns r) = Returns r"
  by (simp add: try_body_def)

lemma starts_with_append: "starts_with xs (xs @ ys)"
  by (induction xs) auto

lemma str_contains_prefix: "str_contains (c # cs) ((c # cs) @ ys)"
  using starts_with_append [of "c # cs" ys] by simp

lemma status_429_retries: "handler_retries (HTTPError (''Status 429: '' @ d))"
proof -
  have "str_contains ''429'' (''429: '' @ d)"
    using str_contains_prefix [of "CHR ''4''" "''29''" "'': '' @ d"] by simp
  then show ?thesis by (simp add: handler_retries_def)
qed



text \<open>
  C5. A call that returns a \<open>dict\<close> whose \<open>error\<close> entry has \<open>429\<close> in its text is not
  returned: the wrapper treats it as the exception \<open>HTTPError("Status 429: <details>")\<close>.
  Before the retry bound it sleeps \<open>backoff * 2 ^ x\<close> and calls the function again; at
  the bound it raises that exception. A function that always answers so is called
  \<open>retries + 1\<close> times, and the run is the run of the function that raises these
  exceptions itself.
\<close>

theorem payload_429_is_retried:
  "(f x = Some (Returns r) \<and> payload_429 str_of r \<longrightarrow>
      (int x \<noteq> retries \<longrightarrow>
         retry_loop str_of f retries backoff x slept =
           retry_loop str_of f retries backoff (x + 1) (slept @ [backoff * 2 ^ x])) \<and>
      (int x = retries \<longrightarrow>
         retry_loop str_of f retries backoff x slept =
           Some \<lparr>final = Raises (HTTPError (''Status 429: '' @ str_of (get_or r ''details'' (JStr '''')))),
                 calls = x + 1, sleeps = slept\<rparr>))
   \<and> ((\<forall>k. h k = Some (Returns (p k)) \<and> payload_429 str_of (p k)) \<longrightarrow>
      retry_with_backoff str_of (int n) backoff h =
        Some \<lparr>final = Raises (HTTPError (''Status 429: '' @ str_of (get_or (p n) ''details'' (JStr '''')))),
              calls = n + 1, sleeps = map (\<lambda>k. backoff * 2 ^ k) [0..<n]\<rparr> \<and>
      retry_with_backoff str_of (int n) backoff h =
        retry_with_backoff str_of (int n) backoff
          (\<lambda>k. Some (Raises (HTTPError (''Status 429: '' @ str_of (get_or (p k) ''details'' (JStr '''')))))))"
proof (intro conjI impI)
  assume a: "f x = Some (Returns r) \<and> payload_429 str_of r"
  then have fx: "f x = Some (Returns r)" by simp
  have tb: "try_body str_of (Returns r) =
      Raises (HTTPError (''Status 429: '' @ str_of (get_or r ''details'' (JStr ''''))))"
    using a by (simp add: try_body_payload)
  { assume "int x \<noteq> retries"
    then show "retry_loop str_of f retries backoff x slept =
           retry_loop str_of f retries backoff (x + 1) (slept @ [backoff * 2 ^ x])"
      using retry_loop_again [where f = f and x = x, OF fx tb status_429_retries] by simp }
  { assume "int x = retries"
    then show "retry_loop str_of f retries backoff x slept =
           Some \<lparr>final = Raises (HTTPError (''Status 429: '' @ str_of (get_or r ''details'' (JStr '''')))),
                 calls = x + 1, sleeps = slept\<rparr>"
      using retry_loop_last [where f = f and x = x, OF fx tb status_429_retries] by simp }
next
  let ?e = "\<lambda>k. HTTPError (''Status 429: '' @ str_of (get_or (p k) ''details'' (JStr '''')))"
  assume a: "\<forall>k. h k = Some (Returns (p k)) \<and> payload_429 str_of (p k)"
  have tb: "\<And>k. try_body str_of (Returns (p k)) = Raises (?e k)"
    using a by (simp add: try_body_payload)
  have hr: "\<And>k. handler_retries (?e k)"
    by (rule status_429_retries)
  have 1: "retry_loop str_of h (int n) backoff 0 [] =
          Some \<lparr>final = Raises (?e n), calls = Suc n, sleeps = [] @ map (\<lambda>k. backoff * 2 ^ k) [0..<n]\<rparr>"
  proof (rule retry_loop_all_retryable)
    show "h k = Some (Returns (p k)) \<and> try_body str_of (Returns (p k)) = Raises (?e k) \<and> handler_retries (?e k)"
      for k using a tb hr by blast
  qed simp
  have 2: "retry_loop str_of (\<lambda>k. Some (Raises (?e k))) (int n) backoff 0 [] =
          Some \<lparr>final = Raises (?e n), calls = Suc n, sleeps = [] @ map (\<lambda>k. backoff * 2 ^ k) [0..<n]\<rparr>"
  proof (rule retry_loop_all_retryable)
    show "Some (Raises (?e k)) = Some (Raises (?e k)) \<and>
          try_body str_of (Raises (?e k)) = Raises (?e k) \<and> handler_retries (?e k)" for k
      using hr try_body_raises by blast
  qed simp
  show "retry_with_backoff str_of (int n) backoff h =
        Some \<lparr>final = Raises (?e n), calls = n + 1, sleeps = map (\<lambda>k. backoff * 2 ^ k) [0..<n]\<rparr>"
    using 1 by (simp add: retry_with_backoff_def)
  show "retry_with_backoff str_of (int n) backoff h =
        retry_with_backoff str_of (int n) backoff (\<lambda>k. Some (Raises (?e k)))"
    using 1 2 by (simp add: retry_with_backoff_def)
qed

theorem payload_429_is_retried_witness:
  "retry_with_backoff py_str 3 2
     (\<lambda>k. Some (Returns (JObj [(''error'', JStr ''HTTP Error: 429''), (''details'', JStr ''quota'')]))) =
     Some \<lparr>final = Raises (HTTPError ''Status 429: quota''), calls = 4, sleeps = [2, 4, 8]\<rparr>"
proof -
  have u: "[0..<3] = [0, 1, 2]" by (simp add: upt_rec)
  show ?thesis
    using payload_429_is_retried [of
        "\<lambda>k. Some (Returns (JObj [(''error'', JStr ''HTTP Error: 429''), (''details'', JStr ''quota'')]))" 0
        "JObj [(''error'', JStr ''HTTP Error: 429''), (''details'', JStr ''quota'')]" py_str 3 2 "[]"
        "\<lambda>k. Some (Returns (JObj [(''error'', JStr ''HTTP Error: 429''), (''details'', JStr ''quota'')]))"
        "\<lambda>k. JObj [(''error'', JStr ''HTTP Error: 429''), (''details'', JStr ''quota'')]" 3]
    by (simp add: payload_429_def is_dict_def dict_get_def get_or_def py_str_def u)
qed

text \<open>
  C10. When a call returns \<open>r\<close> without raising, the wrapper returns \<open>r\<close> at once (no
  further call, no sleep, no exception) exactly when \<open>r\<close> is not a \<open>dict\<close> with an
  \<open>error\<close> entry whose text contains \<open>429\<close>; a \<open>dict\<close> whose \<open>error\<close> entry says
  anything else is returned like any other value.
\<close>

theorem plain_result_returned_at_once:
  "f x = Some (Returns r) \<Longrightarrow>
   (retry_loop str_of f retries backoff x slept =
      Some \<lparr>final = Returns r, calls = x + 1, sleeps = slept\<rparr>)
   = (\<not> (\<exists>kvs v. r = JObj kvs \<and> map_of kvs ''error'' = Some v \<and> str_contains ''429'' (str_of v)))"
proof -
  assume fx: "f x = Some (Returns r)"
  have p: "payload_429 str_of r =
      (\<exists>kvs v. r = JObj kvs \<and> map_of kvs ''error'' = Some v \<and> str_contains ''429'' (str_of v))"
    by (cases r) (auto simp: payload_429_def is_dict_def dict_get_def get_or_def)
  show ?thesis
  proof (cases "payload_429 str_of r")
    case False
    then show ?thesis
      using retry_loop_returns [of f x "Returns r" str_of r retries backoff slept] fx p
      by (simp add: try_body_plain)
  next
    case True
    let ?e = "HTTPError (''Status 429: '' @ str_of (get_or r ''details'' (JStr '''')))"
    have tb: "try_body str_of (Returns r) = Raises ?e"
      using True by (simp add: try_body_payload)
    have "retry_loop str_of f retries backoff x slept \<noteq>
        Some \<lparr>final = Returns r, calls = x + 1, sleeps = slept\<rparr>"
    proof (cases "int x = retries")
      case True
      then show ?thesis
        using retry_loop_last [where f = f and x = x, OF fx tb status_429_retries, of retries backoff slept] by simp
    next
      case False
      show ?thesis
      proof
        assume "retry_loop str_of f retries backoff x slept =
          Some \<lparr>final = Returns r, calls = x + 1, sleeps = slept\<rparr>"
        then have "retry_loop str_of f retries backoff (Suc x) (slept @ [backoff * 2 ^ x]) =
          Some \<lparr>final = Returns r, calls = x + 1, sleeps = slept\<rparr>"
          using retry_loop_again [where f = f and x = x, OF fx tb status_429_retries False, of backoff slept] by simp
        from retry_loop_calls [OF this] show False by simp
      qed
    qed
    with True p show ?thesis by simp
  qed
qed

theorem plain_result_returned_at_once_witness:
  "retry_loop py_str (\<lambda>k. Some (Returns (JObj [(''error'', JStr ''HTTP Error: 500'')]))) 3 2 0 [] =
     Some \<lparr>final = Returns (JObj [(''error'', JStr ''HTTP Error: 500'')]), calls = 1, sleeps = []\<rparr>"
  using plain_result_returned_at_once [of "\<lambda>k. Some (Returns (JObj [(''error'', JStr ''HTTP Error: 500'')]))" 0
      "JObj [(''error'', JStr ''HTTP Error: 500'')]" py_str 3 2 "[]"]
  by (simp add: py_str_def)

subsection \<open>The page loop\<close>












lemma page_loop_not_json:
  assumes "\<not> (truthy_int (max_pages_arg L) \<and> int (page_count + 1) > the (max_pages_arg L))"
    and "srv page_count (request_params L tok) = Reply r"
    and "\<not> (400 \<le> status_code r \<and> status_code r < 600)"
    and "status_code r \<noteq> 204" and "content r \<noteq> []" and "loads (content r) = None"
  shows "page_loop L loads srv page_count tok acc =
     Some \<lparr>exit = Returned (if acc = [] then JObj [(''result'', JStr (content r))] else after_loop L acc),
           requests = page_count + 1\<rparr>"
proof -
  have c: "(truthy_int (max_pages_arg L) \<and> int (page_count + 1) > the (max_pages_arg L)) = False"
    "(400 \<le> status_code r \<and> status_code r < 600) = False"
    "(status_code r = 204 \<or> content r = []) = False"
    using assms by simp_all
  show ?thesis
    by (subst page_loop.simps)
      (simp only: c assms(2,6) if_False http_reply.case option.case flip: if_distrib [of Returned]
        cong: if_cong, simp)
qed

text \<open>
  C8. A page whose body is not empty and does not decode as JSON (status neither an error
  nor 204) ends the call without an error. If nothing has been aggregated so far, the call
  returns \<open>{"result": <the body text>}\<close>; so does a call whose first page is such a page.
  If results have been aggregated, the loop stops and the call returns them under the
  results key.
\<close>

theorem non_json_page:
  "\<not> (truthy_int (max_pages_arg L) \<and> int (page_count + 1) > the (max_pages_arg L)) \<Longrightarrow>
   srv page_count (request_params L tok) = Reply r \<Longrightarrow>
   \<not> (400 \<le> status_code r \<and> status_code r < 600) \<Longrightarrow> status_code r \<noteq> 204 \<Longrightarrow>
   content r \<noteq> [] \<Longrightarrow> loads (content r) = None \<Longrightarrow>
   (acc = [] \<longrightarrow>
      page_loop L loads srv page_count tok acc =
        Some \<lparr>exit = Returned (JObj [(''result'', JStr (content r))]), requests = page_count + 1\<rparr>) \<and>
   (acc \<noteq> [] \<and> truthy_str (results_key L) \<longrightarrow>
      page_loop L loads srv page_count tok acc =
        Some \<lparr>exit = Returned (JObj [(the (results_key L), JArr acc)]), requests = page_count + 1\<rparr>) \<and>
   (page_count = 0 \<and> tok = JNull \<and> L = read_locals ad mp \<longrightarrow>
      run_pages loads srv ad mp =
        Some \<lparr>returned = JObj [(''result'', JStr (content r))], http_requests = 1\<rparr>)"
proof -
  assume a: "\<not> (truthy_int (max_pages_arg L) \<and> int (page_count + 1) > the (max_pages_arg L))"
    "srv page_count (request_params L tok) = Reply r"
    "\<not> (400 \<le> status_code r \<and> status_code r < 600)" "status_code r \<noteq> 204"
    "content r \<noteq> []" "loads (content r) = None"
  have l: "page_loop L loads srv page_count tok acc' =
     Some \<lparr>exit = Returned (if acc' = [] then JObj [(''result'', JStr (content r))] else after_loop L acc'),
           requests = page_count + 1\<rparr>" for acc'
    using page_loop_not_json [where srv = srv and page_count = page_count and loads = loads
        and L = L and tok = tok and r = r, OF a] .
  show ?thesis
  proof (intro conjI impI)
    assume "acc = []"
    then show "page_loop L loads srv page_count tok acc =
        Some \<lparr>exit = Returned (JObj [(''result'', JStr (content r))]), requests = page_count + 1\<rparr>"
      using l [of acc] by simp
  next
    assume "acc \<noteq> [] \<and> truthy_str (results_key L)"
    then show "page_loop L loads srv page_count tok acc =
        Some \<lparr>exit = Returned (JObj [(the (results_key L), JArr acc)]), requests = page_count + 1\<rparr>"
      using l [of acc] by (simp add: after_loop_def)
  next
    assume "page_count = 0 \<and> tok = JNull \<and> L = read_locals ad mp"
    then show "run_pages loads srv ad mp =
        Some \<lparr>returned = JObj [(''result'', JStr (content r))], http_requests = 1\<rparr>"
      using l [of "[]"] by (simp add: run_pages_def fetch_result_def)
  qed
qed

theorem non_json_page_witness:
  "page_loop (read_locals example_audit None) example_loads example_server 2 (JStr ''t2'')
       [JInt 1, JInt 2, JInt 3] =
     Some \<lparr>exit = Returned (JObj [(''items'', JArr [JInt 1, JInt 2, JInt 3])]), requests = 3\<rparr> \<and>
   page_loop (read_locals example_audit None) example_loads example_server 2 (JStr ''t2'') [] =
     Some \<lparr>exit = Returned (JObj [(''result'', JStr ''<html>down</html>'')]), requests = 3\<rparr>"
  using non_json_page [of "read_locals example_audit None" 2 example_server "JStr ''t2''"
      "\<lparr>status_code = 200, content = ''<html>down</html>'', reason = ''OK'',
        url = ''https://example.test/v1/items''\<rparr>" example_loads "[JInt 1, JInt 2, JInt 3]"
      example_audit None]
    non_json_page [of "read_locals example_audit None" 2 example_server "JStr ''t2''"
      "\<lparr>status_code = 200, content = ''<html>down</html>'', reason = ''OK'',
        url = ''https://example.test/v1/items''\<rparr>" example_loads "[]" example_audit None]
  by (simp add: read_locals_def example_audit_def example_server_def example_loads_def
      truthy_int_def truthy_str_def)

subsection \<open>The schedule ticker\<close>




subsection \<open>Failed audit runs\<close>

text \<open>
  C4 at a concrete input. The project is configured and offers the audit \<open>Items\<close>. When
  the API answers every request with status 429, each of the four calls of
  \<open>make_api_request\<close> returns the error result \<open>HTTP Error: 429\<close>, the retry wrapper raises
  \<open>HTTPError\<close>, and \<open>run_audit_logic\<close> lets it pass: it raises \<open>HTTPError\<close> and the
  \<open>Audit\<close> table is as before, without a \<open>Failed\<close> row. When the API answers with status
  500 instead, the function raises \<open>ValueError\<close> and has written the \<open>Failed\<close> row with the
  error message. A request that names neither an audit nor audit details ends in
  \<open>UnboundLocalError\<close>, again without a row.
\<close>

theorem rate_limited_run_leaves_no_record:
  "run_audit_logic (example_world (status_server 429 ''Too Many Requests'')) example_db ''proj''
       (Some ''Items'') None =
     Some (Raises (HTTPError
        ''Status 429: 429 Client Error: Too Many Requests for url: https://example.test/v1/items''), [])
   \<and> run_audit_logic (example_world (status_server 500 ''Internal Server Error'')) example_db ''proj''
       (Some ''Items'') None =
     Some (Raises (ValueError
        ''500 Server Error: Internal Server Error for url: https://example.test/v1/items''),
       [\<lparr>tenant_project_id = ''proj'', audit_category = ''Demo'', audit_name = ''Items'',
         run_timestamp = ''2025-01-01T00:00:00'', status = ''Failed'',
         results = dumps False (JObj [(''error'',
           JStr ''500 Server Error: Internal Server Error for url: https://example.test/v1/items'')])\<rparr>])
   \<and> run_audit_logic (example_world example_server) example_db ''proj'' None None =
     Some (Raises (OtherError ''UnboundLocalError''
        (''cannot access local variable '' @ [CHR 0x27] @ ''audit_details'' @ [CHR 0x27]
          @ '' where it is not associated with a value'')), [])"
  by code_simp

subsection \<open>The diff of two snapshots\<close>

lemma distinct_of_map: "distinct (map f l) \<Longrightarrow> distinct l"
  by (simp add: distinct_map)

lemma filter_same_key:
  "distinct (map fst l) \<Longrightarrow> k \<in> set l \<Longrightarrow> filter (\<lambda>x. fst k = fst x) l = [k]"
proof (induction l)
  case Nil
  then show ?case by simp
next
  case (Cons a l)
  show ?case
  proof (cases "k = a")
    case True
    have "filter (\<lambda>x. fst a = fst x) l = []"
      using Cons.prems(1) by (auto simp: filter_empty_conv image_iff)
    with True show ?thesis by simp
  next
    case False
    then have "k \<in> set l" using Cons.prems(2) by simp
    moreover have "fst k \<noteq> fst a" using Cons.prems(1) \<open>k \<in> set l\<close> by (auto simp: image_iff)
    ultimately show ?thesis using Cons by simp
  qed
qed

lemma sort_key_fst_unique:
  fixes R1 R2 :: "(string \<times> string) list"
  assumes "distinct (map fst R1)" "distinct (map fst R2)" "set R1 = set R2"
  shows "sort_key fst R1 = sort_key fst R2"
proof -
  have d1: "distinct R1" and d2: "distinct R2"
    using assms(1,2) by (auto dest: distinct_of_map)
  have ms: "mset R1 = mset R2"
    using d1 d2 assms(3) by (simp add: set_eq_iff_mset_eq_distinct)
  have ds: "distinct (map fst (sort_key fst R1))"
  proof -
    have "mset (map fst (sort_key fst R1)) = mset (map fst R1)" by simp
    then show ?thesis using assms(1) by (metis distinct_count_atmost_1 mset_eq_setD set_mset_mset)
  qed
  show ?thesis
  proof (rule properties_for_sort_key [symmetric])
    show "mset (sort_key fst R1) = mset R2" using ms by simp
    show "filter (\<lambda>x. fst k = fst x) (sort_key fst R1) = filter (\<lambda>x. fst k = fst x) R2"
      if "k \<in> set (sort_key fst R1)" for k
    proof -
      have "k \<in> set R2" using that assms(3) by simp
      then show ?thesis
        using filter_same_key [OF ds that] filter_same_key [OF assms(2)] by simp
    qed
    show "sorted (map fst (sort_key fst R1))" by simp
  qed
qed

lemma map_eq_list_all2:
  "list_all2 (\<lambda>x y. f x = f y) xs ys \<Longrightarrow> map f xs = map f ys"
  by (induction rule: list_all2_induct) auto

lemma dumps_key_order:
  "well_formed a \<Longrightarrow> well_formed b \<Longrightarrow> same_but_key_order a b \<Longrightarrow>
   dumps_at True level a = dumps_at True level b"
proof (induction a b arbitrary: level rule: same_but_key_order.induct)
  case (1 xs ys)
  have "list_all2 (\<lambda>x y. dumps_at True (level + 1) x = dumps_at True (level + 1) y) xs ys"
  proof (rule list.rel_mono_strong)
    show "list_all2 same_but_key_order xs ys" using "1.prems"(3) by simp
  next
    fix x y assume "x \<in> set xs" "y \<in> set ys" "same_but_key_order x y"
    then show "dumps_at True (level + 1) x = dumps_at True (level + 1) y"
      using "1.IH" [of x y "level + 1"] "1.prems"(1,2) by simp
  qed
  then have "map (dumps_at True (level + 1)) xs = map (dumps_at True (level + 1)) ys"
    by (rule map_eq_list_all2)
  moreover have "(xs = []) = (ys = [])"
    using "1.prems"(3) by (auto dest: list_all2_lengthD)
  ultimately show ?case by simp
next
  case (2 xs ys)
  let ?r = "\<lambda>kv. (fst kv, dumps_at True (level + 1) (snd kv))"
  have len: "length xs = length ys" using "2.prems"(3) by simp
  have dx: "distinct (map fst (map ?r xs))" and dy: "distinct (map fst (map ?r ys))"
    using "2.prems"(1,2) by (simp_all add: comp_def)
  have sub: "set (map ?r xs) \<subseteq> set (map ?r ys)"
  proof
    fix p assume "p \<in> set (map ?r xs)"
    then obtain kv where kv: "kv \<in> set xs" "p = ?r kv" by auto
    then obtain kv' where kv': "kv' \<in> set ys" "fst kv = fst kv'"
      "same_but_key_order (snd kv) (snd kv')"
      using "2.prems"(3) by auto
    have "dumps_at True (level + 1) (snd kv) = dumps_at True (level + 1) (snd kv')"
      using "2.IH" [OF kv(1) kv'(1), of "level + 1"] "2.prems"(1,2) kv(1) kv'(1,3) by simp
    then have "p = ?r kv'" using kv(2) kv'(2) by simp
    then show "p \<in> set (map ?r ys)" using kv'(1) by auto
  qed
  have "distinct (map ?r xs)" "distinct (map ?r ys)"
    using distinct_of_map [OF dx] distinct_of_map [OF dy] by simp_all
  then have "card (set (map ?r xs)) = length xs" "card (set (map ?r ys)) = length ys"
    using distinct_card [of "map ?r xs"] distinct_card [of "map ?r ys"] by simp_all
  then have "set (map ?r xs) = set (map ?r ys)"
    using sub len by (simp add: card_subset_eq)
  then have "sort_key fst (map ?r xs) = sort_key fst (map ?r ys)"
    using sort_key_fst_unique [OF dx dy] by simp
  moreover have "(xs = []) = (ys = [])" using len by auto
  ultimately show ?case by (simp add: in_order_def)
qed simp_all

text \<open>
  C6. When the two inputs decode to documents that are equal up to the order of object
  keys, at any depth, both are written as the same text by \<open>json.dumps(indent=2,
  sort_keys=True)\<close>; the line differ, which has nothing to report for equal inputs, gives
  no line, and \<open>generate_json_diff\<close> returns the no-differences message.
\<close>

theorem diff_ignores_key_order:
  assumes "loads json_str1 = Some data1" and "loads json_str2 = Some data2"
    and "well_formed data1" and "well_formed data2"
    and "same_but_key_order data1 data2"
    and "\<forall>ls a b. unified_diff ls ls a b = []"
  shows "dumps True data1 = dumps True data2 \<and>
         generate_json_diff loads decode_error unified_diff json_str1 json_str2 fromfile tofile =
           ''No differences found between the two audit runs.''"
proof -
  have eq: "dumps True data1 = dumps True data2"
    using dumps_key_order [OF assms(3,4,5)] by (simp add: dumps_def)
  then show ?thesis
    using assms(1,2,6) by (simp add: generate_json_diff_def)
qed

theorem diff_ignores_key_order_witness:
  "generate_json_diff doc_loads (\<lambda>s. ''Expecting value'') replace_all_diff doc_ab doc_ba
       ''previous_run'' ''latest_run'' =
     ''No differences found between the two audit runs.''"
proof -
  have ne: "doc_ba \<noteq> doc_ab" by (simp add: doc_ab_def doc_ba_def)
  show ?thesis
    using diff_ignores_key_order [of doc_loads doc_ab "JObj [(''a'', JInt 1), (''b'', JInt 2)]"
        doc_ba "JObj [(''b'', JInt 2), (''a'', JInt 1)]" replace_all_diff "\<lambda>s. ''Expecting value''"
        "''previous_run''" "''latest_run''"] ne
    by (simp add: doc_loads_def replace_all_diff_def)
qed

subsection \<open>The summarizer\<close>

lemma ask_log:
  "ask ai full_prompt cap st = Some (r, log, n) \<Longrightarrow> fst st \<noteq> [] \<Longrightarrow> log \<noteq> []"
  by (auto simp: ask_def split: option.splits prod.splits)

lemma map_chunks_log:
  "map_chunks ai cfg now audit_label i chunks partial_summaries st = Some (r, log, n) \<Longrightarrow>
   fst st \<noteq> [] \<Longrightarrow> log \<noteq> []"
proof (induction chunks arbitrary: i partial_summaries st)
  case Nil
  then show ?case by auto
next
  case (Cons chunk chunks)
  show ?case
  proof (cases "build_full_prompt now chunk_prompt chunk (audit_label @ '' (Part '' @ dec_nat (i + 1) @ '')'')")
    case (Inl e)
    with Cons.prems show ?thesis by auto
  next
    case (Inr full_prompt)
    show ?thesis
    proof (cases "ask ai full_prompt (map_max_output_tokens cfg) st")
      case None
      with Inr Cons.prems show ?thesis by simp
    next
      case (Some a)
      obtain r' log' n' where a: "a = (r', log', n')" by (cases a) auto
      have l: "log' \<noteq> []" using ask_log [of ai full_prompt _ st r' log' n'] Some a Cons.prems(2) by simp
      show ?thesis
      proof (cases r')
        case (Inl e)
        with Inr Some a Cons.prems l show ?thesis by auto
      next
        case (Inr summary)
        with \<open>build_full_prompt now chunk_prompt chunk (audit_label @ '' (Part '' @ dec_nat (i + 1) @ '')'') = Inr full_prompt\<close>
          Some a Cons.prems(1)
        have "map_chunks ai cfg now audit_label (i + 1) chunks (partial_summaries @ [summary]) (log', n')
                = Some (r, log, n)" by simp
        from Cons.IH [OF this] l show ?thesis by simp
      qed
    qed
  qed
qed

lemma summarize_log:
  "summarize ai cfg loads now prompt data audit_label = Some (r, log, n) \<Longrightarrow> log \<noteq> []"
  by (auto simp: summarize_def single_call_def map_reduce_def reduce_phase_def Let_def
      split: sum.splits prod.splits json.splits option.splits if_splits
      dest!: ask_log map_chunks_log)

text \<open>
  C9. When \<open>data\<close> is falsy (the empty string, \<open>None\<close>, an empty list or dictionary, zero),
  or a list or dictionary without a truthy member, \<open>generate_gemini_summary\<close> returns the
  fixed no-data message and has made no call to the service, whatever the prompt and the
  label. For any other \<open>data\<close> the function does call the service.
\<close>

theorem empty_data_short_circuit:
  "(\<not> truthy data \<or> (is_list_or_dict data \<and> \<not> py_any data) \<longrightarrow>
      generate_gemini_summary ai cfg loads now prompt data audit_label =
        Some (JStr ''No data available for this audit. The API returned an empty result.'', []))
   \<and> (\<not> (\<not> truthy data \<or> (is_list_or_dict data \<and> \<not> py_any data)) \<longrightarrow>
      generate_gemini_summary ai cfg loads now prompt data audit_label = Some (summary, log) \<longrightarrow>
      log \<noteq> [])"
proof (intro conjI impI)
  assume "\<not> truthy data \<or> (is_list_or_dict data \<and> \<not> py_any data)"
  then show "generate_gemini_summary ai cfg loads now prompt data audit_label =
        Some (JStr ''No data available for this audit. The API returned an empty result.'', [])"
    by (simp add: generate_gemini_summary_def nothing_to_process_def no_data_message_def)
next
  assume "\<not> (\<not> truthy data \<or> (is_list_or_dict data \<and> \<not> py_any data))"
    and "generate_gemini_summary ai cfg loads now prompt data audit_label = Some (summary, log)"
  then show "log \<noteq> []"
    by (auto simp: generate_gemini_summary_def nothing_to_process_def
        split: option.splits prod.splits sum.splits dest: summarize_log)
qed

theorem empty_data_short_circuit_witness:
  "generate_gemini_summary example_ai example_config example_loads ''2025-01-01T00:00:00''
       ''Summarize the findings.'' (JStr '''') ''Items'' =
     Some (JStr ''No data available for this audit. The API returned an empty result.'', []) \<and>
   generate_gemini_summary example_ai example_config example_loads ''2025-01-01T00:00:00''
       ''Summarize the findings.'' (JArr [JInt 0, JStr '''']) ''Items'' =
     Some (JStr ''No data available for this audit. The API returned an empty result.'', [])"
  using empty_data_short_circuit [of "JStr ''''" example_ai example_config example_loads
      "''2025-01-01T00:00:00''" "''Summarize the findings.''" "''Items''"]
    empty_data_short_circuit [of "JArr [JInt 0, JStr '''']" example_ai example_config example_loads
      "''2025-01-01T00:00:00''" "''Summarize the findings.''" "''Items''"]
  by (simp add: is_list_or_dict_def py_any_def)

end
